theory Spec2Isabelle
  imports Complex_Main "HOL-Library.AList" "HOL-Library.Log_Nat"
begin

section \<open>Python values of an extracted record\<close>

text \<open>
  The validator of \<^verbatim>\<open>app/validator.py\<close> works on the record the extractor parsed from
  JSON: a tree of dictionaries with string keys, lists, strings, numbers, booleans and
  \<^verbatim>\<open>None\<close>.  A dictionary is an association list in insertion order, read with
  \<open>map_of\<close> and written with \<open>AList.update\<close> (an existing key keeps its place, a new
  key goes to the end), as a Python \<^verbatim>\<open>dict\<close> does.  The tree has no sharing: two
  sections of a record parsed from JSON are never the same object.  The one write of
  the validator is modelled a second time on a store of objects, where a shared
  section can be expressed.

  A float is the rational it denotes, or an infinity, or NaN (the sign of a zero is not
  kept).  What the platform does with floats and with text is a parameter of the
  model, the record \<open>platform\<close>: the rounding of an exact result to a double, the
  rendering of floats and of nested values as text, \<^verbatim>\<open>int()\<close> on a string, and the
  current year.
\<close>

datatype pyfloat = Finite rat | PosInf | NegInf | NaN

datatype pyval =
    PNone
  | PBool bool
  | PInt int
  | PFloat pyfloat
  | PStr string
  | PList "pyval list"
  | PDict "(string \<times> pyval) list"

type_synonym pydict = "(string \<times> pyval) list"

datatype error =
  AttributeError | TypeError | ValueError | OverflowError | ZeroDivisionError | KeyError

record platform =
  now_year :: int
  int_of_str :: "string \<Rightarrow> int option"
  round_double :: "rat \<Rightarrow> pyfloat"
  format_float_comma :: "pyfloat \<Rightarrow> string"
  format_float_1f :: "pyfloat \<Rightarrow> string"
  str_value :: "pyval \<Rightarrow> string"

text \<open>\<^verbatim>\<open>d.get(k)\<close> and \<^verbatim>\<open>d.get(k, default)\<close> on a dictionary.\<close>

definition dict_get_default :: "pydict \<Rightarrow> string \<Rightarrow> pyval \<Rightarrow> pyval" where
  "dict_get_default m k dflt = (case map_of m k of None \<Rightarrow> dflt | Some v \<Rightarrow> v)"

definition dict_get :: "pydict \<Rightarrow> string \<Rightarrow> pyval" where
  "dict_get m k = dict_get_default m k PNone"

text \<open>Truthiness, and \<^verbatim>\<open>x or 0\<close>.\<close>

fun py_truthy :: "pyval \<Rightarrow> bool" where
  "py_truthy PNone = False"
| "py_truthy (PBool b) = b"
| "py_truthy (PInt i) = (i \<noteq> 0)"
| "py_truthy (PFloat f) = (f \<noteq> Finite 0)"
| "py_truthy (PStr s) = (s \<noteq> [])"
| "py_truthy (PList xs) = (xs \<noteq> [])"
| "py_truthy (PDict m) = (m \<noteq> [])"

definition or_zero :: "pyval \<Rightarrow> pyval" where
  "or_zero v = (if py_truthy v then v else PInt 0)"

section \<open>Numbers\<close>

datatype pynum = NInt int | NFloat pyfloat

fun as_num :: "pyval \<Rightarrow> pynum option" where
  "as_num (PBool b) = Some (NInt (if b then 1 else 0))"
| "as_num (PInt i) = Some (NInt i)"
| "as_num (PFloat f) = Some (NFloat f)"
| "as_num _ = None"

text \<open>
  \<^verbatim>\<open>float(i)\<close> for an int operand of a mixed operation: the nearest double, or
  \<^verbatim>\<open>OverflowError\<close> when the int is too large.
\<close>

definition to_float :: "platform \<Rightarrow> int \<Rightarrow> error + pyfloat" where
  "to_float pf i =
     (case round_double pf (of_int i) of Finite q \<Rightarrow> Inr (Finite q) | _ \<Rightarrow> Inl OverflowError)"

fun float_neg :: "pyfloat \<Rightarrow> pyfloat" where
  "float_neg (Finite q) = Finite (- q)"
| "float_neg PosInf = NegInf"
| "float_neg NegInf = PosInf"
| "float_neg NaN = NaN"

fun float_add :: "platform \<Rightarrow> pyfloat \<Rightarrow> pyfloat \<Rightarrow> pyfloat" where
  "float_add pf NaN _ = NaN"
| "float_add pf _ NaN = NaN"
| "float_add pf (Finite a) (Finite b) = round_double pf (a + b)"
| "float_add pf PosInf NegInf = NaN"
| "float_add pf NegInf PosInf = NaN"
| "float_add pf PosInf _ = PosInf"
| "float_add pf NegInf _ = NegInf"
| "float_add pf _ PosInf = PosInf"
| "float_add pf _ NegInf = NegInf"

definition float_sub :: "platform \<Rightarrow> pyfloat \<Rightarrow> pyfloat \<Rightarrow> pyfloat" where
  "float_sub pf a b = float_add pf a (float_neg b)"

definition signed_inf :: "bool \<Rightarrow> pyfloat" where
  "signed_inf positive = (if positive then PosInf else NegInf)"

fun float_sign_pos :: "pyfloat \<Rightarrow> bool" where
  "float_sign_pos (Finite q) = (0 \<le> q)"
| "float_sign_pos PosInf = True"
| "float_sign_pos NegInf = False"
| "float_sign_pos NaN = True"

fun float_mul :: "platform \<Rightarrow> pyfloat \<Rightarrow> pyfloat \<Rightarrow> pyfloat" where
  "float_mul pf NaN _ = NaN"
| "float_mul pf _ NaN = NaN"
| "float_mul pf (Finite a) (Finite b) = round_double pf (a * b)"
| "float_mul pf a b =
     (if a = Finite 0 \<or> b = Finite 0 then NaN
      else signed_inf (float_sign_pos a = float_sign_pos b))"

text \<open>Float division; the divisor zero raises.\<close>

fun float_div :: "platform \<Rightarrow> pyfloat \<Rightarrow> pyfloat \<Rightarrow> error + pyfloat" where
  "float_div pf a (Finite b) =
     (if b = 0 then Inl ZeroDivisionError
      else (case a of
              Finite x \<Rightarrow> Inr (round_double pf (x / b))
            | NaN \<Rightarrow> Inr NaN
            | _ \<Rightarrow> Inr (signed_inf (float_sign_pos a = (0 \<le> b)))))"
| "float_div pf a NaN = Inr NaN"
| "float_div pf a b =
     (case a of Finite x \<Rightarrow> Inr (Finite 0) | _ \<Rightarrow> Inr NaN)"

text \<open>Comparison of a float with an int is exact; every comparison with NaN is false.\<close>

fun float_ge_int :: "pyfloat \<Rightarrow> int \<Rightarrow> bool" where
  "float_ge_int (Finite q) k = (of_int k \<le> q)"
| "float_ge_int PosInf k = True"
| "float_ge_int NegInf k = False"
| "float_ge_int NaN k = False"

fun float_gt_int :: "pyfloat \<Rightarrow> int \<Rightarrow> bool" where
  "float_gt_int (Finite q) k = (of_int k < q)"
| "float_gt_int PosInf k = True"
| "float_gt_int NegInf k = False"
| "float_gt_int NaN k = False"

fun float_lt_int :: "pyfloat \<Rightarrow> int \<Rightarrow> bool" where
  "float_lt_int (Finite q) k = (q < of_int k)"
| "float_lt_int PosInf k = False"
| "float_lt_int NegInf k = True"
| "float_lt_int NaN k = False"

text \<open>
  \<^verbatim>\<open>v >= k\<close>, \<^verbatim>\<open>v > k\<close> and \<^verbatim>\<open>v < k\<close> for an int constant \<open>k\<close>: a value that is
  not a number raises \<^verbatim>\<open>TypeError\<close>.
\<close>

definition py_ge :: "pyval \<Rightarrow> int \<Rightarrow> error + bool" where
  "py_ge v k =
     (case as_num v of
        Some (NInt i) \<Rightarrow> Inr (k \<le> i)
      | Some (NFloat f) \<Rightarrow> Inr (float_ge_int f k)
      | None \<Rightarrow> Inl TypeError)"

definition py_gt :: "pyval \<Rightarrow> int \<Rightarrow> error + bool" where
  "py_gt v k =
     (case as_num v of
        Some (NInt i) \<Rightarrow> Inr (k < i)
      | Some (NFloat f) \<Rightarrow> Inr (float_gt_int f k)
      | None \<Rightarrow> Inl TypeError)"

definition py_lt :: "pyval \<Rightarrow> int \<Rightarrow> error + bool" where
  "py_lt v k =
     (case as_num v of
        Some (NInt i) \<Rightarrow> Inr (i < k)
      | Some (NFloat f) \<Rightarrow> Inr (float_lt_int f k)
      | None \<Rightarrow> Inl TypeError)"

text \<open>
  \<^verbatim>\<open>a + b\<close>: numbers add (an int operand of a float is converted first), two strings
  and two lists concatenate, everything else raises \<^verbatim>\<open>TypeError\<close>.
\<close>

definition py_add :: "platform \<Rightarrow> pyval \<Rightarrow> pyval \<Rightarrow> error + pyval" where
  "py_add pf a b =
     (case (as_num a, as_num b) of
        (Some (NInt x), Some (NInt y)) \<Rightarrow> Inr (PInt (x + y))
      | (Some (NInt x), Some (NFloat g)) \<Rightarrow>
          (case to_float pf x of Inl e \<Rightarrow> Inl e | Inr f \<Rightarrow> Inr (PFloat (float_add pf f g)))
      | (Some (NFloat f), Some (NInt y)) \<Rightarrow>
          (case to_float pf y of Inl e \<Rightarrow> Inl e | Inr g \<Rightarrow> Inr (PFloat (float_add pf f g)))
      | (Some (NFloat f), Some (NFloat g)) \<Rightarrow> Inr (PFloat (float_add pf f g))
      | _ \<Rightarrow>
          (case (a, b) of
             (PStr s, PStr t) \<Rightarrow> Inr (PStr (s @ t))
           | (PList s, PList t) \<Rightarrow> Inr (PList (s @ t))
           | _ \<Rightarrow> Inl TypeError))"

text \<open>\<^verbatim>\<open>v - k\<close> for an int \<open>k\<close>.\<close>

definition py_sub_int :: "platform \<Rightarrow> pyval \<Rightarrow> int \<Rightarrow> error + pyval" where
  "py_sub_int pf v k =
     (case as_num v of
        Some (NInt i) \<Rightarrow> Inr (PInt (i - k))
      | Some (NFloat f) \<Rightarrow>
          (case to_float pf k of Inl e \<Rightarrow> Inl e | Inr g \<Rightarrow> Inr (PFloat (float_sub pf f g)))
      | None \<Rightarrow> Inl TypeError)"

text \<open>
  True division \<^verbatim>\<open>a / b\<close>, always a float: two ints give the correctly rounded
  quotient, or \<^verbatim>\<open>OverflowError\<close> when it is too large for a double.
\<close>

definition py_truediv :: "platform \<Rightarrow> pyval \<Rightarrow> pyval \<Rightarrow> error + pyfloat" where
  "py_truediv pf a b =
     (case (as_num a, as_num b) of
        (Some (NInt x), Some (NInt y)) \<Rightarrow>
          (if y = 0 then Inl ZeroDivisionError
           else (case round_double pf (of_int x / of_int y) of
                   Finite q \<Rightarrow> Inr (Finite q)
                 | _ \<Rightarrow> Inl OverflowError))
      | (Some (NInt x), Some (NFloat g)) \<Rightarrow>
          (case to_float pf x of Inl e \<Rightarrow> Inl e | Inr f \<Rightarrow> float_div pf f g)
      | (Some (NFloat f), Some (NInt y)) \<Rightarrow>
          (case to_float pf y of Inl e \<Rightarrow> Inl e | Inr g \<Rightarrow> float_div pf f g)
      | (Some (NFloat f), Some (NFloat g)) \<Rightarrow> float_div pf f g
      | _ \<Rightarrow> Inl TypeError)"

section \<open>Text\<close>

text \<open>The decimal digits of an int that is not negative, and \<^verbatim>\<open>str\<close> of an int.\<close>

definition digit_char :: "int \<Rightarrow> char" where
  "digit_char n = ''0123456789'' ! nat (n mod 10)"

function str_nat :: "int \<Rightarrow> string" where
  "str_nat n = (if n < 10 then [digit_char n] else str_nat (n div 10) @ [digit_char n])"
  by pat_completeness auto
termination
  by (relation "measure nat") auto

declare str_nat.simps [simp del]

definition str_int :: "int \<Rightarrow> string" where
  "str_int i = (if i < 0 then CHR ''-'' # str_nat (- i) else str_nat i)"

text \<open>The format \<^verbatim>\<open>{:,}\<close> of an int: groups of three digits.\<close>

definition pad3 :: "int \<Rightarrow> string" where
  "pad3 n = [digit_char (n div 100), digit_char (n div 10), digit_char n]"

function comma_nat :: "int \<Rightarrow> string" where
  "comma_nat n =
     (if n < 1000 then str_nat n else comma_nat (n div 1000) @ '','' @ pad3 (n mod 1000))"
  by pat_completeness auto
termination
  by (relation "measure nat") auto

declare comma_nat.simps [simp del]

definition comma_int :: "int \<Rightarrow> string" where
  "comma_int i = (if i < 0 then CHR ''-'' # comma_nat (- i) else comma_nat i)"

text \<open>
  \<^verbatim>\<open>f"{v:,}"\<close>: a bool is formatted as the int it is; a string refuses the format
  with \<^verbatim>\<open>ValueError\<close>, the other values with \<^verbatim>\<open>TypeError\<close>.
\<close>

definition format_comma :: "platform \<Rightarrow> pyval \<Rightarrow> error + string" where
  "format_comma pf v =
     (case as_num v of
        Some (NInt i) \<Rightarrow> Inr (comma_int i)
      | Some (NFloat f) \<Rightarrow> Inr (format_float_comma pf f)
      | None \<Rightarrow> (case v of PStr s \<Rightarrow> Inl ValueError | _ \<Rightarrow> Inl TypeError))"

text \<open>\<^verbatim>\<open>f"{v}"\<close>, that is \<^verbatim>\<open>str(v)\<close>.\<close>

definition py_str :: "platform \<Rightarrow> pyval \<Rightarrow> string" where
  "py_str pf v =
     (case v of
        PStr s \<Rightarrow> s
      | PInt i \<Rightarrow> str_int i
      | PNone \<Rightarrow> ''None''
      | PBool b \<Rightarrow> (if b then ''True'' else ''False'')
      | _ \<Rightarrow> str_value pf v)"

text \<open>\<^verbatim>\<open>s.split(c)\<close> for a one-character separator: never an empty list.\<close>

fun split_on :: "char \<Rightarrow> string \<Rightarrow> string list" where
  "split_on c [] = [[]]"
| "split_on c (x # xs) =
     (if x = c then [] # split_on c xs
      else (case split_on c xs of w # ws \<Rightarrow> (x # w) # ws | [] \<Rightarrow> [[x]]))"

section \<open>The validation report\<close>

record ValidationResult =
  is_valid :: bool
  exemption_status :: string
  red_flags :: "string list"
  warnings :: "string list"
  missing_required :: "string list"
  suitability_concerns :: "string list"
  follow_up_needed :: bool

definition new_result :: ValidationResult where
  "new_result =
     \<lparr> is_valid = True, exemption_status = ''UNKNOWN'', red_flags = [], warnings = [],
       missing_required = [], suitability_concerns = [], follow_up_needed = False \<rparr>"

definition add_warning :: "string \<Rightarrow> ValidationResult \<Rightarrow> ValidationResult" where
  "add_warning s r = r\<lparr>warnings := warnings r @ [s]\<rparr>"

definition add_concern :: "string \<Rightarrow> ValidationResult \<Rightarrow> ValidationResult" where
  "add_concern s r = r\<lparr>suitability_concerns := suitability_concerns r @ [s]\<rparr>"

definition add_red_flag :: "string \<Rightarrow> ValidationResult \<Rightarrow> ValidationResult" where
  "add_red_flag s r = r\<lparr>red_flags := red_flags r @ [s]\<rparr>"

definition add_missing :: "string \<Rightarrow> ValidationResult \<Rightarrow> ValidationResult" where
  "add_missing s r = r\<lparr>missing_required := missing_required r @ [s]\<rparr>"

section \<open>Field accessor and completeness audit\<close>

definition REQUIRED_FIELDS :: "string \<Rightarrow> string list option" where
  "REQUIRED_FIELDS form_type =
     (if form_type = ''individual'' then Some
        [''client_name.first'', ''client_name.last'', ''address.city'', ''address.province'',
         ''contact.email'', ''personal.dob'', ''employment.occupation'',
         ''financials.annual_income'', ''financials.net_financial_assets'',
         ''investment_profile.risk_tolerance'', ''investment_profile.time_horizon'',
         ''investment_profile.investment_objective'']
      else if form_type = ''corporate'' then Some
        [''corporate_name'', ''business_number'', ''authorized_persons'',
         ''financials.annual_income'', ''financials.net_assets'']
      else if form_type = ''trade'' then Some
        [''client_name'', ''investment_details.issuer'', ''investment_details.amount'',
         ''investment_details.source_of_funds'']
      else None)"

text \<open>
  \<^verbatim>\<open>_get_nested\<close>: the loop over the keys of the path, which leaves with
  \<^verbatim>\<open>None\<close> at the first value that is not a dictionary.
\<close>

fun get_nested_loop :: "pyval \<Rightarrow> string list \<Rightarrow> pyval" where
  "get_nested_loop v [] = v"
| "get_nested_loop v (key # keys) =
     (case v of PDict m \<Rightarrow> get_nested_loop (dict_get m key) keys | _ \<Rightarrow> PNone)"

definition get_nested :: "pyval \<Rightarrow> string \<Rightarrow> pyval" where
  "get_nested data path = get_nested_loop data (split_on CHR ''.'' path)"

definition is_missing :: "pyval \<Rightarrow> bool" where
  "is_missing v = (v = PNone \<or> v = PStr [])"

fun check_required_loop :: "pyval \<Rightarrow> string list \<Rightarrow> ValidationResult \<Rightarrow> ValidationResult" where
  "check_required_loop data [] r = r"
| "check_required_loop data (field_path # rest) r =
     check_required_loop data rest
       (if is_missing (get_nested data field_path) then add_missing field_path r else r)"

definition check_required_fields :: "pyval \<Rightarrow> string \<Rightarrow> ValidationResult \<Rightarrow> ValidationResult" where
  "check_required_fields data form_type r =
     check_required_loop data
       (case REQUIRED_FIELDS form_type of None \<Rightarrow> [] | Some req \<Rightarrow> req) r"

section \<open>Errors and sections\<close>

text \<open>An exception leaves the function at once: the rest runs only on a value.\<close>

definition bind_err :: "error + 'a \<Rightarrow> ('a \<Rightarrow> error + 'b) \<Rightarrow> error + 'b" where
  "bind_err x f = (case x of Inl e \<Rightarrow> Inl e | Inr v \<Rightarrow> f v)"

text \<open>
  \<^verbatim>\<open>data.get(name, {})\<close> gives the section \<open>name\<close> of the record, the empty
  dictionary when the key is absent, and whatever is stored under the key otherwise.
  The first \<^verbatim>\<open>.get\<close> on the section raises \<^verbatim>\<open>AttributeError\<close> unless it is a
  dictionary.
\<close>

definition section_value :: "pydict \<Rightarrow> string \<Rightarrow> pyval" where
  "section_value data name = dict_get_default data name (PDict [])"

definition as_dict :: "pyval \<Rightarrow> error + pydict" where
  "as_dict v = (case v of PDict m \<Rightarrow> Inr m | _ \<Rightarrow> Inl AttributeError)"

section \<open>Messages\<close>

text \<open>The texts the validator appends to the report or stores as the reason.\<close>

definition reason_single_income :: "string \<Rightarrow> string" where
  "reason_single_income s = ''Annual income $'' @ s @ '' >= $200,000 for 2 years''"

definition reason_joint_income :: "string \<Rightarrow> string" where
  "reason_joint_income s = ''Joint income $'' @ s @ '' >= $300,000 for 2 years''"

definition reason_nfa :: "string \<Rightarrow> string" where
  "reason_nfa s = ''Net financial assets $'' @ s @ '' >= $1,000,000''"

definition reason_net_assets :: "string \<Rightarrow> string" where
  "reason_net_assets s = ''Net assets $'' @ s @ '' >= $5,000,000''"

definition eligible_warning :: string where
  "eligible_warning = ''Eligible investors have $100k rolling 12-month limit (non-BC)''"

definition non_eligible_warning :: string where
  "non_eligible_warning = ''Client may only invest up to $10,000 under minimum amount exemption''"

definition capacity_concern :: string where
  "capacity_concern =
     ''Risk tolerance (HIGH) exceeds risk capacity (LOW/NIL) - verify with client''"

definition retirement_concern :: "string \<Rightarrow> string" where
  "retirement_concern years =
     ''Time horizon mismatch: selected 10+ years but retirement in '' @ years @ '' years''"

definition growth_concern :: string where
  "growth_concern = ''Growth objective may not align with LOW risk tolerance''"

definition income_warning :: string where
  "income_warning = ''Income objective with HIGH risk tolerance - verify client understands''"

definition age_risk_concern :: "string \<Rightarrow> string" where
  "age_risk_concern age =
     ''Client is '' @ age @ '' years old with HIGH risk tolerance - ensure this is appropriate''"

definition age_horizon_concern :: "string \<Rightarrow> string" where
  "age_horizon_concern age =
     ''Client is '' @ age @ '' years old with 10+ year time horizon - verify suitability''"

definition pep_flag :: "string \<Rightarrow> string" where
  "pep_flag position = ''Client is a Politically Exposed Person: '' @ position"

definition hio_flag :: string where
  "hio_flag =
     ''Client is Head of International Organization - enhanced due diligence required''"

definition borrowed_warning :: string where
  "borrowed_warning = ''Client using borrowed funds - leverage disclosure required''"

definition nfa_warning :: "string \<Rightarrow> string" where
  "nfa_warning s = ''NFA of $'' @ s @ '' requires verification documentation''"

definition concentration_warning :: "string \<Rightarrow> string" where
  "concentration_warning pct =
     ''Investment represents '' @ pct @ ''% of NFA (>10%) - document suitability justification''"

definition concentration_concern :: "string \<Rightarrow> string" where
  "concentration_concern pct = ''High concentration: '' @ pct @ ''% of NFA in single investment''"

section \<open>Exemption classifier\<close>

definition ACCREDITED_INCOME_SINGLE :: int where "ACCREDITED_INCOME_SINGLE = 200000"
definition ACCREDITED_INCOME_JOINT :: int where "ACCREDITED_INCOME_JOINT = 300000"
definition ACCREDITED_NFA :: int where "ACCREDITED_NFA = 1000000"
definition ACCREDITED_NET_ASSETS :: int where "ACCREDITED_NET_ASSETS = 5000000"
definition ELIGIBLE_INCOME_SINGLE :: int where "ELIGIBLE_INCOME_SINGLE = 75000"
definition ELIGIBLE_INCOME_JOINT :: int where "ELIGIBLE_INCOME_JOINT = 125000"
definition ELIGIBLE_NET_ASSETS :: int where "ELIGIBLE_NET_ASSETS = 400000"

text \<open>
  The \<^verbatim>\<open>if\<close>/\<^verbatim>\<open>elif\<close> chain of the accredited rules: the pair of
  \<^verbatim>\<open>is_accredited\<close> and \<^verbatim>\<open>accreditation_reason\<close>.  A comparison is evaluated only
  when every earlier branch has failed, and the stability flag only when the income
  comparison holds.
\<close>

definition accredited_check ::
  "platform \<Rightarrow> pyval \<Rightarrow> pyval \<Rightarrow> pyval \<Rightarrow> pyval \<Rightarrow> pyval \<Rightarrow> error + (bool \<times> pyval)" where
  "accredited_check pf annual_income total_income nfa net_worth income_stable =
     bind_err (py_ge annual_income ACCREDITED_INCOME_SINGLE) (\<lambda>c1.
       if c1 \<and> py_truthy income_stable then
         bind_err (format_comma pf annual_income) (\<lambda>s.
           Inr (True, PStr (reason_single_income s)))
       else
     bind_err (py_ge total_income ACCREDITED_INCOME_JOINT) (\<lambda>c2.
       if c2 \<and> py_truthy income_stable then
         bind_err (format_comma pf total_income) (\<lambda>s.
           Inr (True, PStr (reason_joint_income s)))
       else
     bind_err (py_ge nfa ACCREDITED_NFA) (\<lambda>c3.
       if c3 then
         bind_err (format_comma pf nfa) (\<lambda>s. Inr (True, PStr (reason_nfa s)))
       else
     bind_err (py_ge net_worth ACCREDITED_NET_ASSETS) (\<lambda>c4.
       if c4 then
         bind_err (format_comma pf net_worth) (\<lambda>s. Inr (True, PStr (reason_net_assets s)))
       else Inr (False, PNone)))))"

definition eligible_check :: "bool \<Rightarrow> pyval \<Rightarrow> pyval \<Rightarrow> pyval \<Rightarrow> error + bool" where
  "eligible_check is_accredited annual_income total_income net_worth =
     (if is_accredited then Inr False
      else
        bind_err (py_ge annual_income ELIGIBLE_INCOME_SINGLE) (\<lambda>c1.
          if c1 then Inr True
          else
        bind_err (py_ge total_income ELIGIBLE_INCOME_JOINT) (\<lambda>c2.
          if c2 then Inr True
          else
        bind_err (py_ge net_worth ELIGIBLE_NET_ASSETS) (\<lambda>c3.
          if c3 then Inr True else Inr False))))"

definition set_exemption_status :: "bool \<Rightarrow> bool \<Rightarrow> ValidationResult \<Rightarrow> ValidationResult" where
  "set_exemption_status is_accredited is_eligible r =
     (if is_accredited then r\<lparr>exemption_status := ''ACCREDITED''\<rparr>
      else if is_eligible then
        add_warning eligible_warning (r\<lparr>exemption_status := ''ELIGIBLE''\<rparr>)
      else
        add_warning non_eligible_warning (r\<lparr>exemption_status := ''NON_ELIGIBLE''\<rparr>))"

text \<open>
  The write-back: the section \<^verbatim>\<open>exemption_status\<close> is created when the key is absent,
  and the three item assignments raise \<^verbatim>\<open>TypeError\<close> when what is stored under the key
  is not a dictionary.
\<close>

definition write_exemption :: "bool \<Rightarrow> bool \<Rightarrow> pyval \<Rightarrow> pydict \<Rightarrow> pydict" where
  "write_exemption is_accredited is_eligible reason sec =
     AList.update ''accreditation_reason'' reason
       (AList.update ''is_eligible'' (PBool is_eligible)
          (AList.update ''is_accredited'' (PBool is_accredited) sec))"

definition store_exemption :: "bool \<Rightarrow> bool \<Rightarrow> pyval \<Rightarrow> pydict \<Rightarrow> error + pydict" where
  "store_exemption is_accredited is_eligible reason data =
     (let data1 = (if map_of data ''exemption_status'' = None
                   then AList.update ''exemption_status'' (PDict []) data else data)
      in case dict_get data1 ''exemption_status'' of
           PDict sec \<Rightarrow>
             Inr (AList.update ''exemption_status''
                    (PDict (write_exemption is_accredited is_eligible reason sec)) data1)
         | _ \<Rightarrow> Inl TypeError)"

definition determine_exemption ::
  "platform \<Rightarrow> pydict \<Rightarrow> ValidationResult \<Rightarrow> error + (pydict \<times> ValidationResult)" where
  "determine_exemption pf data r =
     bind_err (as_dict (section_value data ''financials'')) (\<lambda>financials.
       let annual_income = or_zero (dict_get financials ''annual_income'');
           spouse_income = or_zero (dict_get financials ''spouse_income'')
       in
     bind_err (py_add pf annual_income spouse_income) (\<lambda>total_income.
       let nfa = or_zero (dict_get financials ''net_financial_assets'');
           net_worth = or_zero (dict_get financials ''net_worth'');
           income_stable = dict_get_default financials ''income_stable_2_years'' (PBool False)
       in
     bind_err (accredited_check pf annual_income total_income nfa net_worth income_stable)
       (\<lambda>(is_accredited, accreditation_reason).
     bind_err (eligible_check is_accredited annual_income total_income net_worth)
       (\<lambda>is_eligible.
     bind_err (store_exemption is_accredited is_eligible accreditation_reason data)
       (\<lambda>data'. Inr (data', set_exemption_status is_accredited is_eligible r))))))"

section \<open>Suitability checker\<close>

definition capacity_check :: "pyval \<Rightarrow> pyval \<Rightarrow> ValidationResult \<Rightarrow> ValidationResult" where
  "capacity_check risk_tolerance risk_capacity r =
     (if risk_tolerance = PStr ''HIGH''
         \<and> (risk_capacity = PStr ''LOW'' \<or> risk_capacity = PStr ''NIL'')
      then add_concern capacity_concern r else r)"

definition retirement_check ::
  "platform \<Rightarrow> pyval \<Rightarrow> pyval \<Rightarrow> ValidationResult \<Rightarrow> error + ValidationResult" where
  "retirement_check pf retirement_year time_horizon r =
     (if py_truthy retirement_year then
        bind_err (py_sub_int pf retirement_year (now_year pf)) (\<lambda>years_to_retirement.
          if time_horizon = PStr ''10+'' then
            bind_err (py_lt years_to_retirement 5) (\<lambda>c.
              if c then Inr (add_concern (retirement_concern (py_str pf years_to_retirement)) r)
              else Inr r)
          else Inr r)
      else Inr r)"

definition objective_check :: "pyval \<Rightarrow> pyval \<Rightarrow> ValidationResult \<Rightarrow> ValidationResult" where
  "objective_check objective risk_tolerance r =
     (let r1 = (if objective = PStr ''GROWTH'' \<and> risk_tolerance = PStr ''LOW''
                then add_concern growth_concern r else r)
      in if objective = PStr ''INCOME'' \<and> risk_tolerance = PStr ''HIGH''
         then add_warning income_warning r1 else r1)"

text \<open>
  The age checks.  A date of birth that is truthy and not a string has no
  \<^verbatim>\<open>split\<close>: \<^verbatim>\<open>AttributeError\<close>, which the \<^verbatim>\<open>except\<close> clause does not catch.
  \<^verbatim>\<open>ValueError\<close> of \<^verbatim>\<open>int()\<close> and \<^verbatim>\<open>IndexError\<close> are caught and skip the checks.
\<close>

definition age_findings :: "int \<Rightarrow> pyval \<Rightarrow> pyval \<Rightarrow> ValidationResult \<Rightarrow> ValidationResult" where
  "age_findings age risk_tolerance time_horizon r =
     (let r1 = (if age \<ge> 65 \<and> risk_tolerance = PStr ''HIGH''
                then add_concern (age_risk_concern (str_int age)) r else r)
      in if age \<ge> 70 \<and> time_horizon = PStr ''10+''
         then add_concern (age_horizon_concern (str_int age)) r1 else r1)"

definition age_check ::
  "platform \<Rightarrow> pyval \<Rightarrow> pyval \<Rightarrow> pyval \<Rightarrow> ValidationResult \<Rightarrow> error + ValidationResult" where
  "age_check pf dob risk_tolerance time_horizon r =
     (if py_truthy dob then
        (case dob of
           PStr s \<Rightarrow>
             (case split_on CHR ''-'' s of
                [] \<Rightarrow> Inr r
              | first # _ \<Rightarrow>
                  (case int_of_str pf first of
                     None \<Rightarrow> Inr r
                   | Some birth_year \<Rightarrow>
                       Inr (age_findings (now_year pf - birth_year) risk_tolerance time_horizon r)))
         | _ \<Rightarrow> Inl AttributeError)
      else Inr r)"

definition check_suitability ::
  "platform \<Rightarrow> pydict \<Rightarrow> ValidationResult \<Rightarrow> error + ValidationResult" where
  "check_suitability pf data r =
     bind_err (as_dict (section_value data ''investment_profile'')) (\<lambda>profile.
       let risk_tolerance = dict_get profile ''risk_tolerance'';
           risk_capacity = dict_get profile ''risk_capacity'';
           time_horizon = dict_get profile ''time_horizon'';
           objective = dict_get profile ''investment_objective'';
           retirement_year = dict_get profile ''planned_retirement_year''
       in
     bind_err (retirement_check pf retirement_year time_horizon
                 (capacity_check risk_tolerance risk_capacity r)) (\<lambda>r2.
     bind_err (as_dict (section_value data ''personal'')) (\<lambda>personal.
       age_check pf (dict_get personal ''dob'') risk_tolerance time_horizon
         (objective_check objective risk_tolerance r2))))"

section \<open>AML screener\<close>

definition aml_findings :: "platform \<Rightarrow> pydict \<Rightarrow> ValidationResult \<Rightarrow> ValidationResult" where
  "aml_findings pf aml r =
     (let r1 = (if py_truthy (dict_get aml ''is_pep'') then
                  add_red_flag
                    (pep_flag (py_str pf
                       (dict_get_default aml ''pep_position'' (PStr ''position unknown'')))) r
                else r)
      in if py_truthy (dict_get aml ''is_hio'') then add_red_flag hio_flag r1 else r1)"

definition check_aml_flags ::
  "platform \<Rightarrow> pydict \<Rightarrow> ValidationResult \<Rightarrow> error + ValidationResult" where
  "check_aml_flags pf data r =
     bind_err (as_dict (section_value data ''aml'')) (\<lambda>aml.
       let r2 = aml_findings pf aml r in
     bind_err (as_dict (section_value data ''financials'')) (\<lambda>financials.
       let r3 = (if py_truthy (dict_get financials ''borrowed_to_invest'')
                 then add_warning borrowed_warning r2 else r2);
           nfa = or_zero (dict_get financials ''net_financial_assets'')
       in
     bind_err (py_ge nfa 1000000) (\<lambda>c.
       if c then
         bind_err (format_comma pf nfa) (\<lambda>s. Inr (add_warning (nfa_warning s) r3))
       else Inr r3)))"

section \<open>Concentration checker\<close>

text \<open>
  The percentage, when the guard \<^verbatim>\<open>nfa > 0 and investment_amount > 0\<close> lets it be
  computed: \<open>None\<close> is the path that skips the block.  The second comparison is
  evaluated only when the first holds.
\<close>

definition concentration_pct :: "platform \<Rightarrow> pyval \<Rightarrow> pyval \<Rightarrow> error + pyfloat option" where
  "concentration_pct pf nfa investment_amount =
     bind_err (py_gt nfa 0) (\<lambda>c1.
       if \<not> c1 then Inr None
       else
     bind_err (py_gt investment_amount 0) (\<lambda>c2.
       if \<not> c2 then Inr None
       else
     bind_err (py_truediv pf investment_amount nfa) (\<lambda>q.
       Inr (Some (float_mul pf q (Finite 100))))))"

definition concentration_findings :: "platform \<Rightarrow> pyfloat \<Rightarrow> ValidationResult \<Rightarrow> ValidationResult" where
  "concentration_findings pf pct r =
     (let r1 = (if float_gt_int pct 10
                then add_warning (concentration_warning (format_float_1f pf pct)) r else r)
      in if float_gt_int pct 25
         then add_concern (concentration_concern (format_float_1f pf pct)) r1 else r1)"

definition check_concentration ::
  "platform \<Rightarrow> pydict \<Rightarrow> ValidationResult \<Rightarrow> error + ValidationResult" where
  "check_concentration pf data r =
     bind_err (as_dict (section_value data ''financials'')) (\<lambda>financials.
       let nfa = or_zero (dict_get financials ''net_financial_assets'') in
     bind_err (as_dict (section_value data ''investment_details'')) (\<lambda>investment.
       let investment_amount = or_zero (dict_get investment ''amount'') in
     bind_err (concentration_pct pf nfa investment_amount) (\<lambda>p.
       case p of None \<Rightarrow> Inr r | Some pct \<Rightarrow> Inr (concentration_findings pf pct r))))"

section \<open>Validation orchestrator\<close>

definition verdict :: "ValidationResult \<Rightarrow> ValidationResult" where
  "verdict r =
     (let r1 = r\<lparr>follow_up_needed :=
                   (length (red_flags r) > 0 \<or> length (missing_required r) > 3
                    \<or> length (suitability_concerns r) > 0)\<rparr>
      in r1\<lparr>is_valid := (length (red_flags r1) = 0 \<and> length (missing_required r1) \<le> 3)\<rparr>)"

definition validate ::
  "platform \<Rightarrow> pydict \<Rightarrow> string \<Rightarrow> error + (pydict \<times> ValidationResult)" where
  "validate pf data form_type =
     (let r1 = check_required_fields (PDict data) form_type new_result in
      bind_err (determine_exemption pf data r1) (\<lambda>(data', r2).
      bind_err (check_suitability pf data' r2) (\<lambda>r3.
      bind_err (check_aml_flags pf data' r3) (\<lambda>r4.
      bind_err (check_concentration pf data' r4) (\<lambda>r5.
        Inr (data', verdict r5))))))"

section \<open>The record as a store of objects\<close>

text \<open>
  What \<^verbatim>\<open>_determine_exemption\<close> writes, it writes in place, into the dictionary
  object found under \<^verbatim>\<open>exemption_status\<close>.  Where that object is stored a second
  time in the record, the write shows there too, and a value tree cannot say so.  Here
  the record is a store: an object (a dictionary or a list) lives at an address, and a
  value is an atom or the address of an object.  The checkers only read: they are run
  on the value tree that the store holds at that moment, unfolded from the record to a
  depth \<open>d\<close> (a record nested less deep is read exactly; an object deeper than that
  reads as \<^verbatim>\<open>None\<close>).  The write-back is the code of lines 186 to 190 on the store.
\<close>

datatype hval = HNone | HBool bool | HInt int | HFloat pyfloat | HStr string | HRef nat

datatype hobj = HDict "(string \<times> hval) list" | HList "hval list"

type_synonym heap = "(nat \<times> hobj) list"

fun snapshot :: "nat \<Rightarrow> heap \<Rightarrow> hval \<Rightarrow> pyval" where
  "snapshot d h HNone = PNone"
| "snapshot d h (HBool b) = PBool b"
| "snapshot d h (HInt i) = PInt i"
| "snapshot d h (HFloat f) = PFloat f"
| "snapshot d h (HStr s) = PStr s"
| "snapshot 0 h (HRef a) = PNone"
| "snapshot (Suc d) h (HRef a) =
     (case map_of h a of
        None \<Rightarrow> PNone
      | Some (HDict m) \<Rightarrow> PDict (map (\<lambda>kv. (fst kv, snapshot d h (snd kv))) m)
      | Some (HList xs) \<Rightarrow> PList (map (snapshot d h) xs))"

text \<open>The record at address \<open>rref\<close> as the checkers read it.\<close>

definition record_at :: "nat \<Rightarrow> heap \<Rightarrow> nat \<Rightarrow> error + pydict" where
  "record_at d h rref =
     (case snapshot (Suc d) h (HRef rref) of PDict data \<Rightarrow> Inr data | _ \<Rightarrow> Inl AttributeError)"

definition top_value :: "heap \<Rightarrow> nat \<Rightarrow> string \<Rightarrow> hval option" where
  "top_value h rref key =
     (case map_of h rref of Some (HDict m) \<Rightarrow> map_of m key | _ \<Rightarrow> None)"

text \<open>The address \<open>a\<close> is met when \<open>v\<close> is unfolded to depth \<open>d\<close>.\<close>

fun occurs :: "nat \<Rightarrow> heap \<Rightarrow> hval \<Rightarrow> nat \<Rightarrow> bool" where
  "occurs (Suc d) h (HRef b) a =
     (b = a \<or>
      (case map_of h b of
         None \<Rightarrow> False
       | Some (HDict m) \<Rightarrow> list_ex (\<lambda>kv. occurs d h (snd kv) a) m
       | Some (HList xs) \<Rightarrow> list_ex (\<lambda>v. occurs d h v a) xs))"
| "occurs d h v a = False"

text \<open>The address of a new object.\<close>

definition fresh :: "heap \<Rightarrow> nat" where
  "fresh h = Suc (fold max (map fst h) 0)"

text \<open>
  \<^verbatim>\<open>if "exemption_status" not in data: data["exemption_status"] = {}\<close>, and one
  item assignment \<^verbatim>\<open>data["exemption_status"][key] = val\<close>.
\<close>

definition ensure_exemption :: "nat \<Rightarrow> heap \<Rightarrow> error + heap" where
  "ensure_exemption rref h =
     (case map_of h rref of
        Some (HDict m) \<Rightarrow>
          (if map_of m ''exemption_status'' = None then
             Inr (AList.update rref
                    (HDict (AList.update ''exemption_status'' (HRef (fresh h)) m))
                    (AList.update (fresh h) (HDict []) h))
           else Inr h)
      | _ \<Rightarrow> Inl TypeError)"

definition exemption_setitem :: "string \<Rightarrow> hval \<Rightarrow> nat \<Rightarrow> heap \<Rightarrow> error + heap" where
  "exemption_setitem key val rref h =
     (case map_of h rref of
        Some (HDict m) \<Rightarrow>
          (case map_of m ''exemption_status'' of
             None \<Rightarrow> Inl KeyError
           | Some (HRef e) \<Rightarrow>
               (case map_of h e of
                  Some (HDict sec) \<Rightarrow> Inr (AList.update e (HDict (AList.update key val sec)) h)
                | _ \<Rightarrow> Inl TypeError)
           | Some _ \<Rightarrow> Inl TypeError)
      | _ \<Rightarrow> Inl TypeError)"

definition reason_hval :: "pyval \<Rightarrow> hval" where
  "reason_hval reason = (case reason of PStr s \<Rightarrow> HStr s | _ \<Rightarrow> HNone)"

definition store_exemption_heap ::
  "bool \<Rightarrow> bool \<Rightarrow> pyval \<Rightarrow> nat \<Rightarrow> heap \<Rightarrow> error + heap" where
  "store_exemption_heap is_accredited is_eligible reason rref h =
     bind_err (ensure_exemption rref h) (\<lambda>h1.
     bind_err (exemption_setitem ''is_accredited'' (HBool is_accredited) rref h1) (\<lambda>h2.
     bind_err (exemption_setitem ''is_eligible'' (HBool is_eligible) rref h2) (\<lambda>h3.
       exemption_setitem ''accreditation_reason'' (reason_hval reason) rref h3)))"

text \<open>Lines 139 to 173 of \<^verbatim>\<open>_determine_exemption\<close>: the reads and the two rule chains.\<close>

definition classify :: "platform \<Rightarrow> pydict \<Rightarrow> error + (bool \<times> pyval \<times> bool)" where
  "classify pf data =
     bind_err (as_dict (section_value data ''financials'')) (\<lambda>financials.
       let annual_income = or_zero (dict_get financials ''annual_income'');
           spouse_income = or_zero (dict_get financials ''spouse_income'')
       in
     bind_err (py_add pf annual_income spouse_income) (\<lambda>total_income.
       let nfa = or_zero (dict_get financials ''net_financial_assets'');
           net_worth = or_zero (dict_get financials ''net_worth'');
           income_stable = dict_get_default financials ''income_stable_2_years'' (PBool False)
       in
     bind_err (accredited_check pf annual_income total_income nfa net_worth income_stable)
       (\<lambda>(is_accredited, accreditation_reason).
     bind_err (eligible_check is_accredited annual_income total_income net_worth)
       (\<lambda>is_eligible. Inr (is_accredited, accreditation_reason, is_eligible)))))"

definition determine_exemption_heap ::
  "platform \<Rightarrow> nat \<Rightarrow> nat \<Rightarrow> heap \<Rightarrow> ValidationResult \<Rightarrow> error + (heap \<times> ValidationResult)" where
  "determine_exemption_heap pf d rref h r =
     bind_err (record_at d h rref) (\<lambda>data.
     bind_err (classify pf data) (\<lambda>(is_accredited, accreditation_reason, is_eligible).
     bind_err (store_exemption_heap is_accredited is_eligible accreditation_reason rref h)
       (\<lambda>h'. Inr (h', set_exemption_status is_accredited is_eligible r))))"

definition validate_heap ::
  "platform \<Rightarrow> nat \<Rightarrow> heap \<Rightarrow> nat \<Rightarrow> string \<Rightarrow> error + (heap \<times> ValidationResult)" where
  "validate_heap pf d h rref form_type =
     bind_err (record_at d h rref) (\<lambda>data.
       let r1 = check_required_fields (PDict data) form_type new_result in
     bind_err (determine_exemption_heap pf d rref h r1) (\<lambda>(h', r2).
     bind_err (record_at d h' rref) (\<lambda>data'.
     bind_err (check_suitability pf data' r2) (\<lambda>r3.
     bind_err (check_aml_flags pf data' r3) (\<lambda>r4.
     bind_err (check_concentration pf data' r4) (\<lambda>r5.
       Inr (h', verdict r5)))))))"

text \<open>The three keys written into a section.\<close>

definition write_exemption_heap ::
  "bool \<Rightarrow> bool \<Rightarrow> pyval \<Rightarrow> (string \<times> hval) list \<Rightarrow> (string \<times> hval) list" where
  "write_exemption_heap is_accredited is_eligible reason sec =
     AList.update ''accreditation_reason'' (reason_hval reason)
       (AList.update ''is_eligible'' (HBool is_eligible)
          (AList.update ''is_accredited'' (HBool is_accredited) sec))"

section \<open>A concrete platform\<close>

text \<open>
  CPython on ASCII text, for evaluating the model on concrete records: a double is
  the rational rounded to 53 bits, ties to even, with the subnormals and the overflow
  of the binary64 format; \<^verbatim>\<open>int()\<close> takes surrounding whitespace, a sign and
  at most 4300 digits with single underscores between them; \<^verbatim>\<open>repr\<close> of a float is
  the shortest decimal that reads back as the same double, the nearer one of two and the
  even one at a tie.  The searches for a decimal exponent and
  for the shortest digits are bounded by the range and the precision of a double.
\<close>

definition round_half_even :: "rat \<Rightarrow> int" where
  "round_half_even q =
     (let f = \<lfloor>q\<rfloor>; d = q - of_int f
      in if d < 1 / 2 then f else if 1 / 2 < d then f + 1 else if even f then f else f + 1)"

definition pow2 :: "int \<Rightarrow> rat" where
  "pow2 e = (if 0 \<le> e then 2 ^ nat e else 1 / 2 ^ nat (- e))"

text \<open>
  The quotient \<open>n / d\<close> of two positive ints divided by \<open>2 ^ p\<close>, as a fraction of
  ints, and its rounding to the nearest int, ties to even.
\<close>

definition scaled :: "int \<Rightarrow> int \<Rightarrow> int \<Rightarrow> int \<times> int" where
  "scaled n d p = (if p \<le> 0 then (n * 2 ^ nat (- p), d) else (n, d * 2 ^ nat p))"

definition round_fraction :: "int \<times> int \<Rightarrow> int" where
  "round_fraction nd =
     (let f = fst nd div snd nd; r = fst nd mod snd nd
      in if 2 * r < snd nd then f else if snd nd < 2 * r then f + 1
         else if even f then f else f + 1)"

text \<open>The exponent \<open>e\<close> with \<open>2 ^ e \<le> n / d < 2 ^ (e + 1)\<close>.\<close>

definition binary_exponent :: "int \<Rightarrow> int \<Rightarrow> int" where
  "binary_exponent n d =
     (let e = bitlen n - bitlen d; (x, y) = scaled n d e
      in if y \<le> x then e else e - 1)"

definition ieee_round :: "rat \<Rightarrow> pyfloat" where
  "ieee_round q =
     (if q = 0 then Finite 0
      else
        (let (n, d) = quotient_of \<bar>q\<bar>;
             e = binary_exponent n d;
             p = max (e - 52) (- 1074);
             m = round_fraction (scaled n d p)
         in if 1023 \<le> e \<and> 2 ^ 1024 \<le> m * 2 ^ nat p
            then (if 0 < q then PosInf else NegInf)
            else Finite ((if 0 < q then 1 else - 1) * of_int m * pow2 p)))"

definition format_1f :: "pyfloat \<Rightarrow> string" where
  "format_1f f =
     (case f of
        Finite q \<Rightarrow>
          (let m = round_half_even (\<bar>q\<bar> * 10)
           in (if q < 0 then ''-'' else []) @ str_nat (m div 10) @ ''.'' @ [digit_char m])
      | PosInf \<Rightarrow> ''inf''
      | NegInf \<Rightarrow> ''-inf''
      | NaN \<Rightarrow> ''nan'')"

definition is_space :: "char \<Rightarrow> bool" where
  "is_space c = (c \<in> set [CHR '' '', CHR 0x09, CHR 0x0A, CHR 0x0B, CHR 0x0C, CHR 0x0D])"

definition is_digit :: "char \<Rightarrow> bool" where
  "is_digit c = (48 \<le> (of_char c :: int) \<and> (of_char c :: int) \<le> 57)"

definition digit_value :: "char \<Rightarrow> int" where
  "digit_value c = of_char c - 48"

definition strip :: "string \<Rightarrow> string" where
  "strip s = rev (dropWhile is_space (rev (dropWhile is_space s)))"

fun parse_digits :: "int \<Rightarrow> string \<Rightarrow> int option" where
  "parse_digits acc [] = Some acc"
| "parse_digits acc (c # cs) =
     (if is_digit c then parse_digits (acc * 10 + digit_value c) cs
      else if c = CHR ''_'' \<and> cs \<noteq> [] \<and> is_digit (hd cs) then parse_digits acc cs
      else None)"

text \<open>More than 4300 digits are refused (the limit of CPython 3.11 on \<^verbatim>\<open>int()\<close>).\<close>

definition parse_unsigned :: "string \<Rightarrow> int option" where
  "parse_unsigned s =
     (case s of
        [] \<Rightarrow> None
      | c # cs \<Rightarrow>
          if is_digit c \<and> int (length (filter is_digit s)) \<le> 4300 then parse_digits 0 s
          else None)"

definition ascii_int :: "string \<Rightarrow> int option" where
  "ascii_int s =
     (case strip s of
        [] \<Rightarrow> None
      | c # cs \<Rightarrow>
          if c = CHR ''-'' then map_option uminus (parse_unsigned cs)
          else if c = CHR ''+'' then parse_unsigned cs
          else parse_unsigned (c # cs))"

text \<open>Shortest decimal digits that read back as the same double.\<close>

definition pow10 :: "int \<Rightarrow> rat" where
  "pow10 e = (if 0 \<le> e then 10 ^ nat e else 1 / 10 ^ nat (- e))"

fun below_one_exponent :: "nat \<Rightarrow> rat \<Rightarrow> int \<Rightarrow> int" where
  "below_one_exponent 0 a k = k"
| "below_one_exponent (Suc fuel) a k =
     (if 1 \<le> a * pow10 k then k else below_one_exponent fuel a (k + 1))"

definition decimal_exponent :: "rat \<Rightarrow> int" where
  "decimal_exponent a =
     (if 1 \<le> a then int (length (str_nat \<lfloor>a\<rfloor>)) - 1
      else - below_one_exponent 400 a 1)"

definition digits_candidate :: "rat \<Rightarrow> nat \<Rightarrow> (int \<times> int) option" where
  "digits_candidate a n =
     (let scale = decimal_exponent a - int n + 1;
          lo = \<lfloor>a / pow10 scale\<rfloor>;
          ok_lo = (ieee_round (of_int lo * pow10 scale) = Finite a);
          ok_hi = (ieee_round (of_int (lo + 1) * pow10 scale) = Finite a);
          rest = a / pow10 scale - of_int lo;
          near_lo = (rest < 1 / 2 \<or> rest = 1 / 2 \<and> even lo)
      in if ok_lo \<and> (near_lo \<or> \<not> ok_hi) then Some (lo, scale)
         else if ok_hi then Some (lo + 1, scale)
         else None)"

fun shortest_from :: "nat \<Rightarrow> rat \<Rightarrow> nat \<Rightarrow> int \<times> int" where
  "shortest_from 0 a n = (\<lfloor>a / pow10 (decimal_exponent a - 16)\<rfloor>, decimal_exponent a - 16)"
| "shortest_from (Suc fuel) a n =
     (case digits_candidate a n of Some r \<Rightarrow> r | None \<Rightarrow> shortest_from fuel a (n + 1))"

fun strip_zeros :: "nat \<Rightarrow> int \<Rightarrow> int \<Rightarrow> int \<times> int" where
  "strip_zeros 0 d scale = (d, scale)"
| "strip_zeros (Suc fuel) d scale =
     (if d \<noteq> 0 \<and> d mod 10 = 0 then strip_zeros fuel (d div 10) (scale + 1) else (d, scale))"

definition shortest_digits :: "rat \<Rightarrow> int \<times> int" where
  "shortest_digits a =
     (let (d, scale) = shortest_from 17 a 1; (d', scale') = strip_zeros 20 d scale
      in (d', scale'))"

definition exponent_text :: "int \<Rightarrow> string" where
  "exponent_text e =
     (if e < 0 then ''e-'' else ''e+'') @ (if \<bar>e\<bar> < 10 then ''0'' else []) @ str_nat \<bar>e\<bar>"

definition float_layout :: "(int \<Rightarrow> string) \<Rightarrow> rat \<Rightarrow> string" where
  "float_layout grouping a =
     (let (d, scale) = shortest_digits a;
          ds = str_nat d;
          n = int (length ds);
          decpt = n + scale
      in if decpt \<le> - 4 \<or> 16 < decpt then
           (if n = 1 then ds else take 1 ds @ ''.'' @ drop 1 ds) @ exponent_text (decpt - 1)
         else if decpt \<le> 0 then ''0.'' @ replicate (nat (- decpt)) CHR ''0'' @ ds
         else if 0 \<le> scale then grouping (d * 10 ^ nat scale) @ ''.0''
         else grouping (d div 10 ^ nat (- scale)) @ ''.'' @ drop (nat decpt) ds)"

definition float_text :: "(int \<Rightarrow> string) \<Rightarrow> pyfloat \<Rightarrow> string" where
  "float_text grouping f =
     (case f of
        Finite q \<Rightarrow>
          (if q = 0 then ''0.0''
           else (if q < 0 then ''-'' else []) @ float_layout grouping \<bar>q\<bar>)
      | PosInf \<Rightarrow> ''inf''
      | NegInf \<Rightarrow> ''-inf''
      | NaN \<Rightarrow> ''nan'')"

definition repr_float :: "pyfloat \<Rightarrow> string" where
  "repr_float = float_text str_nat"

definition comma_float :: "pyfloat \<Rightarrow> string" where
  "comma_float = float_text comma_nat"

definition hex_digit :: "int \<Rightarrow> char" where
  "hex_digit n = ''0123456789abcdef'' ! nat (n mod 16)"

definition escape_char :: "char \<Rightarrow> char \<Rightarrow> string" where
  "escape_char quote c =
     (if c = CHR 0x5C then [CHR 0x5C, CHR 0x5C]
      else if c = quote then [CHR 0x5C, quote]
      else if c = CHR 0x0A then [CHR 0x5C, CHR ''n'']
      else if c = CHR 0x0D then [CHR 0x5C, CHR ''r'']
      else if c = CHR 0x09 then [CHR 0x5C, CHR ''t'']
      else if (of_char c :: int) < 32 \<or> 127 \<le> (of_char c :: int) then
        [CHR 0x5C, CHR ''x'', hex_digit (of_char c div 16), hex_digit (of_char c)]
      else [c])"

definition repr_str :: "string \<Rightarrow> string" where
  "repr_str s =
     (let quote = (if CHR 0x27 \<in> set s \<and> CHR 0x22 \<notin> set s then CHR 0x22 else CHR 0x27)
      in [quote] @ concat (map (escape_char quote) s) @ [quote])"

fun join_comma :: "string list \<Rightarrow> string" where
  "join_comma [] = []"
| "join_comma [x] = x"
| "join_comma (x # y # ys) = x @ '', '' @ join_comma (y # ys)"

fun py_repr :: "pyval \<Rightarrow> string" where
  "py_repr PNone = ''None''"
| "py_repr (PBool b) = (if b then ''True'' else ''False'')"
| "py_repr (PInt i) = str_int i"
| "py_repr (PFloat f) = repr_float f"
| "py_repr (PStr s) = repr_str s"
| "py_repr (PList xs) = ''['' @ join_comma (map py_repr xs) @ '']''"
| "py_repr (PDict m) =
     ''{'' @ join_comma (map (\<lambda>p. repr_str (fst p) @ '': '' @ py_repr (snd p)) m) @ ''}''"

definition cpython :: "int \<Rightarrow> platform" where
  "cpython year =
     \<lparr> now_year = year, int_of_str = ascii_int, round_double = ieee_round,
       format_float_comma = comma_float, format_float_1f = format_1f, str_value = py_repr \<rparr>"

text \<open>
  The one property of the conversion of an int to a double that the concentration
  check depends on: a positive int does not become the double zero.
\<close>

definition converts_positive :: "platform \<Rightarrow> bool" where
  "converts_positive pf \<longleftrightarrow> (\<forall>i. 0 < i \<longrightarrow> round_double pf (of_int i) \<noteq> Finite 0)"

section \<open>Statements of the specification\<close>

text \<open>
  Definitions that follow the words of the specification, to be compared with the
  functions above, and the readers of what the validator stored.
\<close>

text \<open>
  The field accessor of the specification: the value at a path, and nothing when a
  segment is missing or a node on the way is not a dictionary.
\<close>

fun resolve_path :: "pyval \<Rightarrow> string list \<Rightarrow> pyval option" where
  "resolve_path v [] = Some v"
| "resolve_path v (k # ks) =
     (case v of
        PDict m \<Rightarrow> (case map_of m k of None \<Rightarrow> None | Some v' \<Rightarrow> resolve_path v' ks)
      | _ \<Rightarrow> None)"

text \<open>Two reports agree on the red flags and on the missing fields.\<close>

definition same_flags :: "ValidationResult \<Rightarrow> ValidationResult \<Rightarrow> bool" where
  "same_flags r r' \<longleftrightarrow>
     red_flags r' = red_flags r \<and> missing_required r' = missing_required r"

definition old_exemption_section :: "pydict \<Rightarrow> pydict option" where
  "old_exemption_section data =
     (case map_of data ''exemption_status'' of
        None \<Rightarrow> Some []
      | Some (PDict sec) \<Rightarrow> Some sec
      | Some _ \<Rightarrow> None)"

definition stored_exemption :: "pydict \<Rightarrow> string \<Rightarrow> pyval" where
  "stored_exemption data key =
     (case section_value data ''exemption_status'' of PDict sec \<Rightarrow> dict_get sec key | _ \<Rightarrow> PNone)"

definition num_ge :: "pyval \<Rightarrow> int \<Rightarrow> bool" where
  "num_ge v k = (py_ge v k = Inr True)"

datatype accredited_rule = SingleIncome | JointIncome | NetFinancialAssets | NetAssets

definition spec_accredited_rule ::
  "pyval \<Rightarrow> pyval \<Rightarrow> pyval \<Rightarrow> pyval \<Rightarrow> bool \<Rightarrow> accredited_rule option" where
  "spec_accredited_rule annual_income total_income nfa net_worth income_stable =
     (if num_ge annual_income 200000 \<and> income_stable then Some SingleIncome
      else if num_ge total_income 300000 \<and> income_stable then Some JointIncome
      else if num_ge nfa 1000000 then Some NetFinancialAssets
      else if num_ge net_worth 5000000 then Some NetAssets
      else None)"

fun rule_amount :: "accredited_rule \<Rightarrow> pyval \<Rightarrow> pyval \<Rightarrow> pyval \<Rightarrow> pyval \<Rightarrow> pyval" where
  "rule_amount SingleIncome annual_income total_income nfa net_worth = annual_income"
| "rule_amount JointIncome annual_income total_income nfa net_worth = total_income"
| "rule_amount NetFinancialAssets annual_income total_income nfa net_worth = nfa"
| "rule_amount NetAssets annual_income total_income nfa net_worth = net_worth"

fun rule_text :: "accredited_rule \<Rightarrow> string \<Rightarrow> string" where
  "rule_text SingleIncome s = reason_single_income s"
| "rule_text JointIncome s = reason_joint_income s"
| "rule_text NetFinancialAssets s = reason_nfa s"
| "rule_text NetAssets s = reason_net_assets s"




definition section_field :: "pydict \<Rightarrow> string \<Rightarrow> string \<Rightarrow> pyval" where
  "section_field data name key =
     (case section_value data name of PDict m \<Rightarrow> dict_get m key | _ \<Rightarrow> PNone)"



section \<open>Sample records\<close>

definition sample_client :: pyval where
  "sample_client =
     PDict [(''client_name'', PDict [(''first'', PStr ''John''), (''middle'', PNone)]),
            (''age'', PInt 41)]"

text \<open>
  A corporate record: the number of authorized persons is zero, the income is an empty
  list, the business number is the empty string and the net assets are not stated.
\<close>

definition sample_corporate :: pyval where
  "sample_corporate =
     PDict [(''corporate_name'', PStr ''Acme''), (''business_number'', PStr []),
            (''authorized_persons'', PInt 0),
            (''financials'', PDict [(''annual_income'', PList [])])]"

definition sample_nfa_record :: pydict where
  "sample_nfa_record =
     [(''financials'', PDict
         [(''annual_income'', PInt 100000), (''net_financial_assets'', PInt 1500000)])]"

definition sample_pep :: pydict where
  "sample_pep =
     [(''client_name'', PDict [(''first'', PStr ''John''), (''last'', PStr ''Smith'')]),
      (''financials'', PDict
         [(''annual_income'', PInt 500000), (''net_worth'', PInt 10000000),
          (''income_stable_2_years'', PBool True)]),
      (''aml'', PDict [(''is_pep'', PBool True), (''pep_position'', PStr ''Minister'')])]"

definition sample_trade :: pydict where
  "sample_trade =
     [(''client_name'', PStr ''Jane Doe''),
      (''financials'', PDict
         [(''annual_income'', PInt 90000), (''net_financial_assets'', PInt 200000),
          (''borrowed_to_invest'', PBool True)]),
      (''investment_details'', PDict
         [(''issuer'', PStr ''Acme Fund''), (''amount'', PInt 30000),
          (''source_of_funds'', PStr ''BORROWED'')])]"

definition sample_pep_stored :: pydict where
  "sample_pep_stored =
     sample_pep @
       [(''exemption_status'', PDict
           [(''is_accredited'', PBool True), (''is_eligible'', PBool False),
            (''accreditation_reason'',
             PStr ''Annual income $500,000 >= $200,000 for 2 years'')])]"

definition sample_pep_report :: ValidationResult where
  "sample_pep_report =
     \<lparr> is_valid = False, exemption_status = ''ACCREDITED'',
       red_flags = [''Client is a Politically Exposed Person: Minister''],
       warnings = [],
       missing_required =
         [''address.city'', ''address.province'', ''contact.email'', ''personal.dob'',
          ''employment.occupation'', ''financials.net_financial_assets'',
          ''investment_profile.risk_tolerance'', ''investment_profile.time_horizon'',
          ''investment_profile.investment_objective''],
       suitability_concerns = [], follow_up_needed = True \<rparr>"

definition sample_trade_stored :: pydict where
  "sample_trade_stored =
     sample_trade @
       [(''exemption_status'', PDict
           [(''is_accredited'', PBool False), (''is_eligible'', PBool True),
            (''accreditation_reason'', PNone)])]"

definition sample_trade_report :: ValidationResult where
  "sample_trade_report =
     \<lparr> is_valid = True, exemption_status = ''ELIGIBLE'', red_flags = [],
       warnings =
         [''Eligible investors have $100k rolling 12-month limit (non-BC)'',
          ''Client using borrowed funds - leverage disclosure required'',
          ''Investment represents 15.0% of NFA (>10%) - document suitability justification''],
       missing_required = [], suitability_concerns = [], follow_up_needed = False \<rparr>"

definition sample_boundary :: "int \<Rightarrow> pydict" where
  "sample_boundary income =
     [(''financials'', PDict
         [(''annual_income'', PInt income), (''income_stable_2_years'', PBool True)])]"

text \<open>
  Two stores: in the first the record holds one dictionary under both
  \<^verbatim>\<open>financials\<close> and \<^verbatim>\<open>exemption_status\<close>; the second is a tree.
\<close>

definition aliased_heap :: heap where
  "aliased_heap =
     [(0, HDict [(''financials'', HRef 1), (''exemption_status'', HRef 1)]),
      (1, HDict [(''annual_income'', HInt 250000), (''income_stable_2_years'', HBool True)])]"

definition tree_heap :: heap where
  "tree_heap =
     [(0, HDict [(''financials'', HRef 1), (''exemption_status'', HRef 2)]),
      (1, HDict [(''annual_income'', HInt 250000), (''income_stable_2_years'', HBool True)]),
      (2, HDict [(''source'', HStr ''extractor'')])]"

definition aliased_heap_after :: heap where
  "aliased_heap_after =
     [(0, HDict [(''financials'', HRef 1), (''exemption_status'', HRef 1)]),
      (1, HDict [(''annual_income'', HInt 250000), (''income_stable_2_years'', HBool True),
                 (''is_accredited'', HBool True), (''is_eligible'', HBool False),
                 (''accreditation_reason'',
                  HStr ''Annual income $250,000 >= $200,000 for 2 years'')])]"

definition tree_heap_after :: heap where
  "tree_heap_after =
     [(0, HDict [(''financials'', HRef 1), (''exemption_status'', HRef 2)]),
      (1, HDict [(''annual_income'', HInt 250000), (''income_stable_2_years'', HBool True)]),
      (2, HDict [(''source'', HStr ''extractor''), (''is_accredited'', HBool True),
                 (''is_eligible'', HBool False),
                 (''accreditation_reason'',
                  HStr ''Annual income $250,000 >= $200,000 for 2 years'')])]"

definition accredited_report :: ValidationResult where
  "accredited_report =
     \<lparr> is_valid = True, exemption_status = ''ACCREDITED'', red_flags = [], warnings = [],
       missing_required = [], suitability_concerns = [], follow_up_needed = False \<rparr>"

text \<open>
  Two records for the concentration check: 30000 of 100000 in net financial assets, and
  10000 of 100000, which is the limit of ten per cent exactly.
\<close>

definition sample_concentrated :: pydict where
  "sample_concentrated =
     [(''financials'', PDict [(''net_financial_assets'', PInt 100000)]),
      (''investment_details'', PDict [(''amount'', PInt 30000)])]"

definition sample_at_limit :: pydict where
  "sample_at_limit =
     [(''financials'', PDict [(''net_financial_assets'', PInt 100000)]),
      (''investment_details'', PDict [(''amount'', PInt 10000)])]"

definition concentrated_report :: ValidationResult where
  "concentrated_report =
     \<lparr> is_valid = True, exemption_status = ''UNKNOWN'', red_flags = [],
       warnings =
         [''Investment represents 30.0% of NFA (>10%) - document suitability justification''],
       missing_required = [],
       suitability_concerns = [''High concentration: 30.0% of NFA in single investment''],
       follow_up_needed = False \<rparr>"





section \<open>Auxiliary lemmas\<close>

lemma bind_err_Inr [simp]: "bind_err (Inr v) f = f v"
  by (simp add: bind_err_def)

lemma bind_err_Inl [simp]: "bind_err (Inl e) f = Inl e"
  by (simp add: bind_err_def)

lemma bind_err_eq_Inr: "bind_err x f = Inr y \<longleftrightarrow> (\<exists>v. x = Inr v \<and> f v = Inr y)"
  by (cases x) simp_all

lemma as_dict_eq_Inr: "as_dict v = Inr m \<longleftrightarrow> v = PDict m"
  by (cases v) (simp_all add: as_dict_def)

text \<open>What each checker leaves alone.\<close>

lemma same_flags_refl [simp]: "same_flags r r"
  by (simp add: same_flags_def)

lemma same_flags_trans: "same_flags r r1 \<Longrightarrow> same_flags r1 r2 \<Longrightarrow> same_flags r r2"
  by (simp add: same_flags_def)

lemma same_flags_add [simp]:
  "same_flags r (add_warning s r)" "same_flags r (add_concern s r)"
  by (simp_all add: same_flags_def add_warning_def add_concern_def)

lemma set_exemption_status_flags: "same_flags r (set_exemption_status a e r)"
  by (simp add: set_exemption_status_def same_flags_def add_warning_def)

lemma set_exemption_status_concerns:
  "suitability_concerns (set_exemption_status a e r) = suitability_concerns r"
  by (simp add: set_exemption_status_def add_warning_def)

lemma capacity_check_flags: "same_flags r (capacity_check rt rc r)"
  by (simp add: capacity_check_def)

lemma objective_check_flags: "same_flags r (objective_check ob rt r)"
  by (simp add: objective_check_def Let_def same_flags_def add_warning_def add_concern_def)

lemma age_findings_flags: "same_flags r (age_findings age rt th r)"
  by (simp add: age_findings_def Let_def same_flags_def add_concern_def)

lemma retirement_check_flags:
  assumes "retirement_check pf ry th r = Inr r'"
  shows "same_flags r r'"
  using assms
  by (auto simp: retirement_check_def bind_err_eq_Inr split: if_splits)

lemma age_check_flags:
  assumes "age_check pf dob rt th r = Inr r'"
  shows "same_flags r r'"
  using assms
  by (auto simp: age_check_def age_findings_flags
           split: if_splits pyval.splits list.splits option.splits)

lemma check_suitability_flags:
  assumes "check_suitability pf data r = Inr r'"
  shows "same_flags r r'"
proof -
  from assms obtain ry th rt rc ob r2 dob where
    rc: "retirement_check pf ry th (capacity_check rt rc r) = Inr r2"
    and ac: "age_check pf dob rt th (objective_check ob rt r2) = Inr r'"
    unfolding check_suitability_def Let_def bind_err_eq_Inr by blast
  have "same_flags r r2"
    using capacity_check_flags retirement_check_flags [OF rc] by (rule same_flags_trans)
  moreover have "same_flags r2 r'"
    using objective_check_flags age_check_flags [OF ac] by (rule same_flags_trans)
  ultimately show ?thesis by (rule same_flags_trans)
qed

lemma aml_findings_fields:
  "missing_required (aml_findings pf aml r) = missing_required r"
  "suitability_concerns (aml_findings pf aml r) = suitability_concerns r"
  by (simp_all add: aml_findings_def Let_def add_red_flag_def)

lemma aml_findings_red_flags:
  "red_flags (aml_findings pf aml r) =
     red_flags r
       @ (if py_truthy (dict_get aml ''is_pep'')
          then [pep_flag (py_str pf
                  (dict_get_default aml ''pep_position'' (PStr ''position unknown'')))]
          else [])
       @ (if py_truthy (dict_get aml ''is_hio'') then [hio_flag] else [])"
  by (simp add: aml_findings_def Let_def add_red_flag_def)

lemma check_aml_flags_Inr:
  assumes "check_aml_flags pf data r = Inr r'"
  shows "\<exists>aml. section_value data ''aml'' = PDict aml
           \<and> red_flags r' = red_flags (aml_findings pf aml r)
           \<and> missing_required r' = missing_required r
           \<and> suitability_concerns r' = suitability_concerns r"
  using assms
  by (auto simp: check_aml_flags_def Let_def bind_err_eq_Inr as_dict_eq_Inr
        aml_findings_fields add_warning_def split: if_splits)

lemma concentration_findings_flags: "same_flags r (concentration_findings pf pct r)"
  by (simp add: concentration_findings_def Let_def same_flags_def add_warning_def
        add_concern_def)

lemma check_concentration_flags:
  assumes "check_concentration pf data r = Inr r'"
  shows "same_flags r r'"
  using assms
  by (auto simp: check_concentration_def bind_err_eq_Inr Let_def concentration_findings_flags
           split: option.splits)

lemma check_required_loop_eq:
  "check_required_loop data req r =
     r\<lparr>missing_required :=
         missing_required r @ filter (\<lambda>p. is_missing (get_nested data p)) req\<rparr>"
  by (induction req arbitrary: r) (simp_all add: add_missing_def)

lemma validate_eq_Inr:
  "validate pf data form_type = Inr (data', r) \<longleftrightarrow>
     (\<exists>r2 r3 r4 r5.
        determine_exemption pf data (check_required_fields (PDict data) form_type new_result)
          = Inr (data', r2)
      \<and> check_suitability pf data' r2 = Inr r3
      \<and> check_aml_flags pf data' r3 = Inr r4
      \<and> check_concentration pf data' r4 = Inr r5
      \<and> r = verdict r5)"
  by (auto simp: validate_def bind_err_eq_Inr Let_def)

lemma verdict_is_valid:
  "is_valid (verdict r) \<longleftrightarrow> red_flags r = [] \<and> length (missing_required r) \<le> 3"
  by (simp add: verdict_def Let_def)

lemma verdict_follow_up:
  "follow_up_needed (verdict r) \<longleftrightarrow>
     red_flags r \<noteq> [] \<or> 3 < length (missing_required r) \<or> suitability_concerns r \<noteq> []"
  by (simp add: verdict_def Let_def)

lemma verdict_lists:
  "red_flags (verdict r) = red_flags r"
  "missing_required (verdict r) = missing_required r"
  "suitability_concerns (verdict r) = suitability_concerns r"
  "warnings (verdict r) = warnings r"
  "exemption_status (verdict r) = exemption_status r"
  by (simp_all add: verdict_def Let_def)

lemma store_exemption_eq_Inr:
  "store_exemption a e reason data = Inr data' \<longleftrightarrow>
     (\<exists>sec. old_exemption_section data = Some sec
        \<and> data' = AList.update ''exemption_status'' (PDict (write_exemption a e reason sec)) data)"
proof (cases "map_of data ''exemption_status''")
  case None
  then show ?thesis
    by (auto simp: store_exemption_def old_exemption_section_def dict_get_def
          dict_get_default_def update_conv')
next
  case (Some v)
  then show ?thesis
    by (cases v)
       (auto simp: store_exemption_def old_exemption_section_def dict_get_def dict_get_default_def)
qed

lemma stored_exemption_update:
  "stored_exemption (AList.update ''exemption_status'' (PDict sec) data) key = dict_get sec key"
  by (simp add: stored_exemption_def section_value_def dict_get_default_def update_conv')

lemma write_exemption_get:
  "dict_get (write_exemption a e reason sec) ''is_accredited'' = PBool a"
  "dict_get (write_exemption a e reason sec) ''is_eligible'' = PBool e"
  "dict_get (write_exemption a e reason sec) ''accreditation_reason'' = reason"
  by (simp_all add: write_exemption_def dict_get_def dict_get_default_def update_conv')

lemma py_ge_num_ge: "py_ge v k = Inr c \<Longrightarrow> num_ge v k = c"
  by (auto simp: num_ge_def)

lemma accredited_check_spec:
  assumes "accredited_check pf annual_income total_income nfa net_worth income_stable
             = Inr (a, reason)"
  shows "case spec_accredited_rule annual_income total_income nfa net_worth
                (py_truthy income_stable) of
           None \<Rightarrow> \<not> a \<and> reason = PNone
         | Some rule \<Rightarrow>
             a \<and> (\<exists>s. format_comma pf (rule_amount rule annual_income total_income nfa net_worth)
                          = Inr s
                      \<and> reason = PStr (rule_text rule s))"
  using assms
  unfolding accredited_check_def spec_accredited_rule_def
    ACCREDITED_INCOME_SINGLE_def ACCREDITED_INCOME_JOINT_def ACCREDITED_NFA_def
    ACCREDITED_NET_ASSETS_def
  by (auto simp: bind_err_eq_Inr dest!: py_ge_num_ge split: if_splits)

lemma eligible_check_accredited:
  "eligible_check True annual_income total_income net_worth = Inr False"
  by (simp add: eligible_check_def)

lemma determine_exemption_eq_Inr:
  "determine_exemption pf data r = Inr (data', r') \<longleftrightarrow>
     (\<exists>financials total_income a reason e sec.
        section_value data ''financials'' = PDict financials
      \<and> py_add pf (or_zero (dict_get financials ''annual_income''))
           (or_zero (dict_get financials ''spouse_income'')) = Inr total_income
      \<and> accredited_check pf (or_zero (dict_get financials ''annual_income'')) total_income
           (or_zero (dict_get financials ''net_financial_assets''))
           (or_zero (dict_get financials ''net_worth''))
           (dict_get_default financials ''income_stable_2_years'' (PBool False)) = Inr (a, reason)
      \<and> eligible_check a (or_zero (dict_get financials ''annual_income'')) total_income
           (or_zero (dict_get financials ''net_worth'')) = Inr e
      \<and> old_exemption_section data = Some sec
      \<and> data' = AList.update ''exemption_status'' (PDict (write_exemption a e reason sec)) data
      \<and> r' = set_exemption_status a e r)"
  by (auto simp: determine_exemption_def bind_err_eq_Inr as_dict_eq_Inr Let_def
        store_exemption_eq_Inr)

lemma get_nested_loop_None: "get_nested_loop PNone keys = PNone"
  by (cases keys) simp_all

lemma get_nested_loop_resolve:
  "get_nested_loop v keys = (case resolve_path v keys of None \<Rightarrow> PNone | Some w \<Rightarrow> w)"
proof (induction keys arbitrary: v)
  case Nil
  show ?case by simp
next
  case (Cons k ks)
  show ?case
  proof (cases v)
    case (PDict m)
    show ?thesis
    proof (cases "map_of m k")
      case None
      with PDict show ?thesis
        by (simp add: dict_get_def dict_get_default_def get_nested_loop_None)
    next
      case (Some w)
      with PDict show ?thesis
        by (simp add: dict_get_def dict_get_default_def Cons.IH)
    qed
  qed simp_all
qed

section \<open>Field accessor\<close>

text \<open>
  C8.  For every record and every dot-separated path, \<^verbatim>\<open>_get_nested\<close> returns the
  value at the path, and \<^verbatim>\<open>None\<close> when a segment is missing or a node on the way is
  not a dictionary; a missing path and a stored \<^verbatim>\<open>None\<close> give the same result.  The
  function has no raising operation (the \<^verbatim>\<open>isinstance\<close> test guards the only
  \<^verbatim>\<open>.get\<close>), so it is a total function into the values.
\<close>

theorem get_nested_resolves:
  "get_nested data path =
     (case resolve_path data (split_on CHR ''.'' path) of None \<Rightarrow> PNone | Some v \<Rightarrow> v)"
  by (simp add: get_nested_def get_nested_loop_resolve)

theorem get_nested_resolves_witness:
  "get_nested sample_client ''client_name.first'' = PStr ''John''
   \<and> resolve_path sample_client (split_on CHR ''.'' ''client_name.first'') = Some (PStr ''John'')
   \<and> get_nested sample_client ''client_name.middle'' = PNone
   \<and> resolve_path sample_client (split_on CHR ''.'' ''client_name.middle'') = Some PNone
   \<and> get_nested sample_client ''address.city'' = PNone
   \<and> resolve_path sample_client (split_on CHR ''.'' ''address.city'') = None
   \<and> get_nested sample_client ''age.years'' = PNone
   \<and> resolve_path sample_client (split_on CHR ''.'' ''age.years'') = None"
proof -
  have first: "resolve_path sample_client (split_on CHR ''.'' ''client_name.first'')
                 = Some (PStr ''John'')"
    by code_simp
  have middle: "resolve_path sample_client (split_on CHR ''.'' ''client_name.middle'')
                  = Some PNone"
    by code_simp
  have city: "resolve_path sample_client (split_on CHR ''.'' ''address.city'') = None"
    by code_simp
  have years: "resolve_path sample_client (split_on CHR ''.'' ''age.years'') = None"
    by code_simp
  show ?thesis
    using get_nested_resolves [of sample_client "''client_name.first''"]
      get_nested_resolves [of sample_client "''client_name.middle''"]
      get_nested_resolves [of sample_client "''address.city''"]
      get_nested_resolves [of sample_client "''age.years''"]
    by (simp only: first middle city years option.case simp_thms)
qed

section \<open>Completeness auditor\<close>

text \<open>
  C7.  For every record and form type, \<^verbatim>\<open>_check_required_fields\<close> appends to the
  missing fields exactly the required paths whose value is \<^verbatim>\<open>None\<close> (absent or null)
  or the empty string, in the order of the requirement list, and changes nothing else
  of the report; zero, false and the empty list count as present; a form type other
  than the three known ones has no requirement and leaves the report as it is.
\<close>

theorem check_required_fields_missing:
  "check_required_fields data form_type r =
     r\<lparr>missing_required :=
         missing_required r
           @ filter (\<lambda>p. get_nested data p = PNone \<or> get_nested data p = PStr [])
               (case REQUIRED_FIELDS form_type of None \<Rightarrow> [] | Some req \<Rightarrow> req)\<rparr>
   \<and> \<not> is_missing (PInt 0) \<and> \<not> is_missing (PFloat (Finite 0))
   \<and> \<not> is_missing (PBool False) \<and> \<not> is_missing (PList [])
   \<and> (form_type \<noteq> ''individual'' \<and> form_type \<noteq> ''corporate'' \<and> form_type \<noteq> ''trade''
        \<longrightarrow> REQUIRED_FIELDS form_type = None
            \<and> check_required_fields data form_type r = r)"
proof -
  have "check_required_fields data form_type r =
     r\<lparr>missing_required :=
         missing_required r
           @ filter (\<lambda>p. get_nested data p = PNone \<or> get_nested data p = PStr [])
               (case REQUIRED_FIELDS form_type of None \<Rightarrow> [] | Some req \<Rightarrow> req)\<rparr>"
    unfolding check_required_fields_def check_required_loop_eq is_missing_def ..
  moreover have "REQUIRED_FIELDS form_type = None \<and> check_required_fields data form_type r = r"
    if "form_type \<noteq> ''individual'' \<and> form_type \<noteq> ''corporate'' \<and> form_type \<noteq> ''trade''"
    using that by (simp add: REQUIRED_FIELDS_def check_required_fields_def)
  ultimately show ?thesis
    by (simp add: is_missing_def)
qed

theorem check_required_fields_missing_witness:
  "''unknown_type'' \<noteq> ''individual'' \<and> ''unknown_type'' \<noteq> ''corporate''
   \<and> ''unknown_type'' \<noteq> ''trade''
   \<and> check_required_fields sample_client ''unknown_type'' new_result = new_result
   \<and> missing_required (check_required_fields sample_corporate ''corporate'' new_result)
       = [''business_number'', ''financials.net_assets'']"
proof -
  have unknown: "''unknown_type'' \<noteq> ''individual'' \<and> ''unknown_type'' \<noteq> ''corporate''
      \<and> ''unknown_type'' \<noteq> ''trade''"
    by simp
  have listed: "filter (\<lambda>p. get_nested sample_corporate p = PNone
                            \<or> get_nested sample_corporate p = PStr [])
                  (case REQUIRED_FIELDS ''corporate'' of None \<Rightarrow> [] | Some req \<Rightarrow> req)
                = [''business_number'', ''financials.net_assets'']"
    by code_simp
  have start: "missing_required new_result = []"
    by (simp add: new_result_def)
  from check_required_fields_missing [of sample_client "''unknown_type''" new_result] unknown
  have "check_required_fields sample_client ''unknown_type'' new_result = new_result"
    by blast
  moreover
  from check_required_fields_missing [of sample_corporate "''corporate''" new_result]
  have "missing_required (check_required_fields sample_corporate ''corporate'' new_result)
          = [''business_number'', ''financials.net_assets'']"
    by (simp add: listed start)
  ultimately show ?thesis
    using unknown by blast
qed

section \<open>Exemption classifier: precedence\<close>

text \<open>
  C1.  Whenever \<^verbatim>\<open>_determine_exemption\<close> returns, the financial section is a
  dictionary and the total income is defined, and with the amounts read as the code
  reads them (an absent, null or otherwise falsy amount is 0, an absent stability flag
  is false): if any accredited threshold is met, the tier is ACCREDITED, the record
  stores \<^verbatim>\<open>is_accredited\<close> true and \<^verbatim>\<open>is_eligible\<close> false, whatever the eligible
  thresholds say; and the stored reason is the text of the first rule that matches, in
  the order single income, joint income, net financial assets, net assets, with the
  amount of that rule.
\<close>

theorem exemption_precedence:
  assumes "determine_exemption pf data r = Inr (data', r')"
  shows "\<exists>financials total_income.
           section_value data ''financials'' = PDict financials
         \<and> py_add pf (or_zero (dict_get financials ''annual_income''))
              (or_zero (dict_get financials ''spouse_income'')) = Inr total_income
         \<and> (let annual_income = or_zero (dict_get financials ''annual_income'');
                 nfa = or_zero (dict_get financials ''net_financial_assets'');
                 net_worth = or_zero (dict_get financials ''net_worth'');
                 income_stable = py_truthy
                   (dict_get_default financials ''income_stable_2_years'' (PBool False))
             in (num_ge annual_income 200000 \<and> income_stable
                   \<or> num_ge total_income 300000 \<and> income_stable
                   \<or> num_ge nfa 1000000
                   \<or> num_ge net_worth 5000000
                 \<longrightarrow> exemption_status r' = ''ACCREDITED''
                     \<and> stored_exemption data' ''is_accredited'' = PBool True
                     \<and> stored_exemption data' ''is_eligible'' = PBool False)
              \<and> (\<forall>rule. spec_accredited_rule annual_income total_income nfa net_worth
                            income_stable = Some rule
                    \<longrightarrow> (\<exists>s. format_comma pf
                                 (rule_amount rule annual_income total_income nfa net_worth)
                               = Inr s
                            \<and> stored_exemption data' ''accreditation_reason''
                               = PStr (rule_text rule s))))"
proof -
  from assms obtain financials total_income a reason e sec where
    fin: "section_value data ''financials'' = PDict financials"
    and tot: "py_add pf (or_zero (dict_get financials ''annual_income''))
           (or_zero (dict_get financials ''spouse_income'')) = Inr total_income"
    and acc: "accredited_check pf (or_zero (dict_get financials ''annual_income'')) total_income
           (or_zero (dict_get financials ''net_financial_assets''))
           (or_zero (dict_get financials ''net_worth''))
           (dict_get_default financials ''income_stable_2_years'' (PBool False)) = Inr (a, reason)"
    and eli: "eligible_check a (or_zero (dict_get financials ''annual_income'')) total_income
           (or_zero (dict_get financials ''net_worth'')) = Inr e"
    and data': "data' = AList.update ''exemption_status''
                  (PDict (write_exemption a e reason sec)) data"
    and r': "r' = set_exemption_status a e r"
    unfolding determine_exemption_eq_Inr by blast
  let ?annual = "or_zero (dict_get financials ''annual_income'')"
  let ?nfa = "or_zero (dict_get financials ''net_financial_assets'')"
  let ?nw = "or_zero (dict_get financials ''net_worth'')"
  let ?stable = "py_truthy (dict_get_default financials ''income_stable_2_years'' (PBool False))"
  note spec = accredited_check_spec [OF acc]
  have met: "exemption_status r' = ''ACCREDITED''
        \<and> stored_exemption data' ''is_accredited'' = PBool True
        \<and> stored_exemption data' ''is_eligible'' = PBool False"
    if "num_ge ?annual 200000 \<and> ?stable \<or> num_ge total_income 300000 \<and> ?stable
          \<or> num_ge ?nfa 1000000 \<or> num_ge ?nw 5000000"
  proof -
    from that have "spec_accredited_rule ?annual total_income ?nfa ?nw ?stable \<noteq> None"
      by (auto simp: spec_accredited_rule_def)
    with spec have a by (auto split: option.splits)
    with eli have "e = False" by (simp add: eligible_check_accredited)
    with \<open>a\<close> show ?thesis
      by (simp add: r' data' set_exemption_status_def stored_exemption_update write_exemption_get)
  qed
  have cite: "\<exists>s. format_comma pf (rule_amount rule ?annual total_income ?nfa ?nw) = Inr s
        \<and> stored_exemption data' ''accreditation_reason'' = PStr (rule_text rule s)"
    if "spec_accredited_rule ?annual total_income ?nfa ?nw ?stable = Some rule" for rule
    using spec that by (auto simp: data' stored_exemption_update write_exemption_get)
  show ?thesis
    using fin tot met cite unfolding Let_def by blast
qed

theorem exemption_precedence_witness:
  "determine_exemption (cpython 2026) sample_nfa_record new_result =
     Inr (sample_nfa_record @
            [(''exemption_status'', PDict
                [(''is_accredited'', PBool True), (''is_eligible'', PBool False),
                 (''accreditation_reason'',
                  PStr ''Net financial assets $1,500,000 >= $1,000,000'')])],
          new_result\<lparr>exemption_status := ''ACCREDITED''\<rparr>)
   \<and> num_ge (PInt 100000) 75000
   \<and> num_ge (PInt 1500000) 1000000
   \<and> exemption_status (new_result\<lparr>exemption_status := ''ACCREDITED''\<rparr>) = ''ACCREDITED''"
proof -
  let ?fin = "[(''annual_income'', PInt 100000), (''net_financial_assets'', PInt 1500000)]"
  let ?data' = "sample_nfa_record @
            [(''exemption_status'', PDict
                [(''is_accredited'', PBool True), (''is_eligible'', PBool False),
                 (''accreditation_reason'',
                  PStr ''Net financial assets $1,500,000 >= $1,000,000'')])]"
  let ?r' = "new_result\<lparr>exemption_status := ''ACCREDITED''\<rparr>"
  have run: "determine_exemption (cpython 2026) sample_nfa_record new_result = Inr (?data', ?r')"
    by code_simp
  have eligible: "num_ge (PInt 100000) 75000" by code_simp
  have nfa: "num_ge (PInt 1500000) 1000000" by code_simp
  from exemption_precedence [OF run] obtain financials total_income where
    fin: "section_value sample_nfa_record ''financials'' = PDict financials"
    and met: "num_ge (or_zero (dict_get financials ''net_financial_assets'')) 1000000
                \<longrightarrow> exemption_status ?r' = ''ACCREDITED''"
    unfolding Let_def by blast
  have "section_value sample_nfa_record ''financials'' = PDict ?fin" by code_simp
  with fin have "financials = ?fin" by simp
  moreover have "or_zero (dict_get ?fin ''net_financial_assets'') = PInt 1500000" by code_simp
  ultimately have "exemption_status ?r' = ''ACCREDITED''" using met nfa by simp
  with run eligible nfa show ?thesis by blast
qed

section \<open>Lemmas on the classifier and the orchestrator\<close>

lemma determine_exemption_sections:
  assumes "determine_exemption pf data r = Inr (data', r')"
    and "name \<noteq> ''exemption_status''"
  shows "section_value data' name = section_value data name"
  using assms
  by (auto simp: determine_exemption_eq_Inr section_value_def dict_get_default_def update_conv')

lemma determine_exemption_flags:
  assumes "determine_exemption pf data r = Inr (data', r')"
  shows "same_flags r r'" and "suitability_concerns r' = suitability_concerns r"
  using assms
  by (auto simp: determine_exemption_eq_Inr set_exemption_status_flags
        set_exemption_status_concerns)

lemma check_required_fields_flags:
  "red_flags (check_required_fields data form_type r) = red_flags r"
  "suitability_concerns (check_required_fields data form_type r) = suitability_concerns r"
  by (simp_all add: check_required_fields_def check_required_loop_eq)

lemma validate_red_flags:
  assumes "validate pf data form_type = Inr (data', r)"
  shows "\<exists>aml. section_value data ''aml'' = PDict aml
           \<and> red_flags r = red_flags (aml_findings pf aml new_result)"
proof -
  from assms obtain r2 r3 r4 r5 where
    de: "determine_exemption pf data (check_required_fields (PDict data) form_type new_result)
          = Inr (data', r2)"
    and cs: "check_suitability pf data' r2 = Inr r3"
    and ca: "check_aml_flags pf data' r3 = Inr r4"
    and cc: "check_concentration pf data' r4 = Inr r5"
    and r: "r = verdict r5"
    unfolding validate_eq_Inr by blast
  from check_aml_flags_Inr [OF ca] obtain aml where
    aml: "section_value data' ''aml'' = PDict aml"
    and r4: "red_flags r4 = red_flags (aml_findings pf aml r3)"
    by blast
  have "section_value data ''aml'' = PDict aml"
    using determine_exemption_sections [OF de, of "''aml''"] aml by simp
  moreover have "red_flags r3 = red_flags new_result"
    using determine_exemption_flags(1) [OF de] check_suitability_flags [OF cs]
    by (simp add: same_flags_def check_required_fields_flags)
  then have "red_flags (aml_findings pf aml r3) = red_flags (aml_findings pf aml new_result)"
    by (simp add: aml_findings_red_flags)
  moreover have "red_flags r = red_flags r4"
    using check_concentration_flags [OF cc] by (simp add: r verdict_lists same_flags_def)
  ultimately show ?thesis using r4 by auto
qed

lemma write_exemption_other:
  assumes "k \<noteq> ''is_accredited''" "k \<noteq> ''is_eligible''" "k \<noteq> ''accreditation_reason''"
  shows "map_of (write_exemption a e reason sec) k = map_of sec k"
  using assms by (simp add: write_exemption_def update_conv')

lemma write_exemption_idem:
  "write_exemption a e reason (write_exemption a e reason sec) = write_exemption a e reason sec"
proof -
  let ?w = "write_exemption a e reason sec"
  have 1: "AList.update ''is_accredited'' (PBool a) ?w = ?w"
    by (rule update_triv) (simp add: write_exemption_def update_conv')
  have 2: "AList.update ''is_eligible'' (PBool e) ?w = ?w"
    by (rule update_triv) (simp add: write_exemption_def update_conv')
  have 3: "AList.update ''accreditation_reason'' reason ?w = ?w"
    by (rule update_triv) (simp add: write_exemption_def update_conv')
  show ?thesis
    unfolding write_exemption_def [of a e reason ?w] 1 2 3 ..
qed

lemma old_exemption_section_update:
  "old_exemption_section (AList.update ''exemption_status'' (PDict sec) data) = Some sec"
  by (simp add: old_exemption_section_def update_conv')

lemma section_value_update:
  "name \<noteq> ''exemption_status'' \<Longrightarrow>
     section_value (AList.update ''exemption_status'' v data) name = section_value data name"
  by (simp add: section_value_def dict_get_default_def update_conv')

lemma determine_exemption_again:
  assumes "determine_exemption pf data r = Inr (data', r')"
  shows "determine_exemption pf data' r = Inr (data', r')"
proof -
  from assms obtain financials total_income a reason e sec where
    fin: "section_value data ''financials'' = PDict financials"
    and tot: "py_add pf (or_zero (dict_get financials ''annual_income''))
           (or_zero (dict_get financials ''spouse_income'')) = Inr total_income"
    and acc: "accredited_check pf (or_zero (dict_get financials ''annual_income'')) total_income
           (or_zero (dict_get financials ''net_financial_assets''))
           (or_zero (dict_get financials ''net_worth''))
           (dict_get_default financials ''income_stable_2_years'' (PBool False)) = Inr (a, reason)"
    and eli: "eligible_check a (or_zero (dict_get financials ''annual_income'')) total_income
           (or_zero (dict_get financials ''net_worth'')) = Inr e"
    and data': "data' = AList.update ''exemption_status''
                  (PDict (write_exemption a e reason sec)) data"
    and r': "r' = set_exemption_status a e r"
    unfolding determine_exemption_eq_Inr by blast
  have fin': "section_value data' ''financials'' = PDict financials"
    unfolding data' using fin by (simp add: section_value_update)
  have sec': "old_exemption_section data' = Some (write_exemption a e reason sec)"
    unfolding data' by (rule old_exemption_section_update)
  have same: "data' = AList.update ''exemption_status''
      (PDict (write_exemption a e reason (write_exemption a e reason sec))) data'"
    unfolding write_exemption_idem data' by simp
  show ?thesis
    unfolding determine_exemption_eq_Inr
    using fin' tot acc eli sec' same r' by blast
qed

lemma get_nested_top_level:
  assumes "split_on CHR ''.'' path = k # ks" and "map_of data' k = map_of data k"
  shows "get_nested (PDict data') path = get_nested (PDict data) path"
  using assms by (simp add: get_nested_def dict_get_def dict_get_default_def)

lemma split_on_not_Nil [simp]: "split_on c s \<noteq> []"
  by (induction s) (auto split: list.splits)

lemma split_on_Cons: "\<exists>k ks. split_on c s = k # ks"
  by (cases "split_on c s") simp_all

lemma split_on_head:
  "split_on c s = k # ks \<Longrightarrow> k = takeWhile (\<lambda>x. x \<noteq> c) s"
  by (induction s arbitrary: k ks) (auto split: if_splits list.splits)

lemma required_paths_top:
  assumes "REQUIRED_FIELDS form_type = Some req" and "p \<in> set req"
  shows "takeWhile (\<lambda>x. x \<noteq> CHR ''.'') p \<noteq> ''exemption_status''"
  using assms by (auto simp: REQUIRED_FIELDS_def split: if_splits)

lemma check_required_fields_frame:
  assumes "\<And>k. k \<noteq> ''exemption_status'' \<Longrightarrow> map_of data' k = map_of data k"
  shows "check_required_fields (PDict data') form_type r
           = check_required_fields (PDict data) form_type r"
proof (cases "REQUIRED_FIELDS form_type")
  case None
  then show ?thesis by (simp add: check_required_fields_def)
next
  case (Some req)
  have "get_nested (PDict data') p = get_nested (PDict data) p" if "p \<in> set req" for p
  proof -
    obtain k ks where split: "split_on CHR ''.'' p = k # ks"
      using split_on_Cons by blast
    have "k \<noteq> ''exemption_status''"
      using required_paths_top [OF Some that] split_on_head [OF split] by simp
    then show ?thesis
      using split assms by (intro get_nested_top_level)
  qed
  then have "filter (\<lambda>p. is_missing (get_nested (PDict data') p)) req
           = filter (\<lambda>p. is_missing (get_nested (PDict data) p)) req"
    by (intro filter_cong) simp_all
  then show ?thesis
    by (simp add: check_required_fields_def check_required_loop_eq Some)
qed

lemma determine_exemption_other_keys:
  assumes "determine_exemption pf data r = Inr (data', r')"
    and "k \<noteq> ''exemption_status''"
  shows "map_of data' k = map_of data k"
  using assms by (auto simp: determine_exemption_eq_Inr update_conv')

lemma py_ge_PInt [simp]: "py_ge (PInt i) k = Inr (k \<le> i)"
  by (simp add: py_ge_def)

lemma py_gt_PInt [simp]: "py_gt (PInt i) k = Inr (k < i)"
  by (simp add: py_gt_def)

lemma py_lt_PInt [simp]: "py_lt (PInt i) k = Inr (i < k)"
  by (simp add: py_lt_def)

lemma py_add_PInt [simp]: "py_add pf (PInt a) (PInt b) = Inr (PInt (a + b))"
  by (simp add: py_add_def)

lemma py_sub_int_PInt [simp]: "py_sub_int pf (PInt a) k = Inr (PInt (a - k))"
  by (simp add: py_sub_int_def)

lemma format_comma_PInt [simp]: "format_comma pf (PInt i) = Inr (comma_int i)"
  by (simp add: format_comma_def)

lemma store_exemption_Inr:
  "old_exemption_section data = Some sec \<Longrightarrow>
     store_exemption a e reason data
       = Inr (AList.update ''exemption_status'' (PDict (write_exemption a e reason sec)) data)"
  using store_exemption_eq_Inr [of a e reason data] by (cases "store_exemption a e reason data") auto

lemma comma_int_200000: "comma_int 200000 = ''200,000''"
  by code_simp

section \<open>Exemption classifier: the income boundary\<close>

text \<open>
  C6.  With the stability flag true, a spouse income that is absent, null or an int, and
  an exemption section that is absent or a dictionary: an annual income of exactly
  200,000 is classified ACCREDITED by the single-income rule, whatever the other
  amounts are; an annual income of 199,999 with a joint income below 300,000, net
  financial assets below 1,000,000 and a net worth below 5,000,000 is classified
  ELIGIBLE, with the standing warning of that tier.
\<close>

theorem accredited_income_boundary:
  assumes fin: "section_value data ''financials'' = PDict financials"
    and stable: "py_truthy (dict_get_default financials ''income_stable_2_years'' (PBool False))"
    and spouse: "or_zero (dict_get financials ''spouse_income'') = PInt spouse_income"
    and sec: "old_exemption_section data = Some sec"
  shows "(or_zero (dict_get financials ''annual_income'') = PInt 200000
          \<longrightarrow> determine_exemption pf data r =
                Inr (AList.update ''exemption_status''
                       (PDict (write_exemption True False
                                 (PStr ''Annual income $200,000 >= $200,000 for 2 years'') sec))
                       data,
                     r\<lparr>exemption_status := ''ACCREDITED''\<rparr>))
       \<and> (or_zero (dict_get financials ''annual_income'') = PInt 199999
            \<and> or_zero (dict_get financials ''net_financial_assets'') = PInt nfa
            \<and> or_zero (dict_get financials ''net_worth'') = PInt net_worth
            \<and> 199999 + spouse_income < 300000 \<and> nfa < 1000000 \<and> net_worth < 5000000
          \<longrightarrow> determine_exemption pf data r =
                Inr (AList.update ''exemption_status''
                       (PDict (write_exemption False True PNone sec)) data,
                     add_warning eligible_warning (r\<lparr>exemption_status := ''ELIGIBLE''\<rparr>)))"
proof (intro conjI impI)
  assume annual: "or_zero (dict_get financials ''annual_income'') = PInt 200000"
  have "accredited_check pf (PInt 200000) (PInt (200000 + spouse_income))
          (or_zero (dict_get financials ''net_financial_assets''))
          (or_zero (dict_get financials ''net_worth''))
          (dict_get_default financials ''income_stable_2_years'' (PBool False))
        = Inr (True, PStr ''Annual income $200,000 >= $200,000 for 2 years'')"
    using stable
    by (simp add: accredited_check_def ACCREDITED_INCOME_SINGLE_def comma_int_200000
          reason_single_income_def)
  then show "determine_exemption pf data r =
                Inr (AList.update ''exemption_status''
                       (PDict (write_exemption True False
                                 (PStr ''Annual income $200,000 >= $200,000 for 2 years'') sec))
                       data,
                     r\<lparr>exemption_status := ''ACCREDITED''\<rparr>)"
    using fin spouse annual sec
    by (simp add: determine_exemption_def as_dict_def eligible_check_def store_exemption_Inr
          set_exemption_status_def)
next
  assume low: "or_zero (dict_get financials ''annual_income'') = PInt 199999
            \<and> or_zero (dict_get financials ''net_financial_assets'') = PInt nfa
            \<and> or_zero (dict_get financials ''net_worth'') = PInt net_worth
            \<and> 199999 + spouse_income < 300000 \<and> nfa < 1000000 \<and> net_worth < 5000000"
  then have acc: "accredited_check pf (PInt 199999) (PInt (199999 + spouse_income)) (PInt nfa)
          (PInt net_worth) (dict_get_default financials ''income_stable_2_years'' (PBool False))
        = Inr (False, PNone)"
    by (simp add: accredited_check_def ACCREDITED_INCOME_SINGLE_def
          ACCREDITED_INCOME_JOINT_def ACCREDITED_NFA_def ACCREDITED_NET_ASSETS_def)
  have eli: "eligible_check False (PInt 199999) (PInt (199999 + spouse_income)) (PInt net_worth)
        = Inr True"
    by (simp add: eligible_check_def ELIGIBLE_INCOME_SINGLE_def)
  show "determine_exemption pf data r =
                Inr (AList.update ''exemption_status''
                       (PDict (write_exemption False True PNone sec)) data,
                     add_warning eligible_warning (r\<lparr>exemption_status := ''ELIGIBLE''\<rparr>))"
    using fin spouse low sec acc eli
    by (simp add: determine_exemption_def as_dict_def store_exemption_Inr
          set_exemption_status_def)
qed

theorem accredited_income_boundary_witness:
  "determine_exemption (cpython 2026) (sample_boundary 200000) new_result
     = Inr (sample_boundary 200000 @
              [(''exemption_status'', PDict
                  [(''is_accredited'', PBool True), (''is_eligible'', PBool False),
                   (''accreditation_reason'',
                    PStr ''Annual income $200,000 >= $200,000 for 2 years'')])],
            new_result\<lparr>exemption_status := ''ACCREDITED''\<rparr>)
   \<and> determine_exemption (cpython 2026) (sample_boundary 199999) new_result
     = Inr (sample_boundary 199999 @
              [(''exemption_status'', PDict
                  [(''is_accredited'', PBool False), (''is_eligible'', PBool True),
                   (''accreditation_reason'', PNone)])],
            add_warning eligible_warning (new_result\<lparr>exemption_status := ''ELIGIBLE''\<rparr>))"
proof -
  let ?fin = "\<lambda>income. [(''annual_income'', PInt income), (''income_stable_2_years'', PBool True)]"
  have fin: "section_value (sample_boundary income) ''financials'' = PDict (?fin income)"
    for income
    by (simp add: sample_boundary_def section_value_def dict_get_default_def)
  have stable: "py_truthy (dict_get_default (?fin income) ''income_stable_2_years'' (PBool False))"
    for income
    by (simp add: dict_get_default_def)
  have spouse: "or_zero (dict_get (?fin income) ''spouse_income'') = PInt 0" for income
    by (simp add: or_zero_def dict_get_def dict_get_default_def)
  have sec: "old_exemption_section (sample_boundary income) = Some []" for income
    by (simp add: sample_boundary_def old_exemption_section_def)
  have annual: "or_zero (dict_get (?fin income) ''annual_income'') = PInt income"
    if "income \<noteq> 0" for income
    using that by (simp add: or_zero_def dict_get_def dict_get_default_def)
  have rest: "or_zero (dict_get (?fin income) ''net_financial_assets'') = PInt 0
      \<and> or_zero (dict_get (?fin income) ''net_worth'') = PInt 0" for income
    by (simp add: or_zero_def dict_get_def dict_get_default_def)
  have written: "AList.update ''exemption_status'' (PDict (write_exemption a e reason []))
                   (sample_boundary income)
      = sample_boundary income @
          [(''exemption_status'', PDict
              [(''is_accredited'', PBool a), (''is_eligible'', PBool e),
               (''accreditation_reason'', reason)])]" for a e reason income
    by (simp add: sample_boundary_def write_exemption_def)
  from accredited_income_boundary
         [OF fin [of 200000] stable [of 200000] spouse [of 200000] sec [of 200000],
          where pf = "cpython 2026" and r = new_result]
       annual [of 200000]
  have first:
    "determine_exemption (cpython 2026) (sample_boundary 200000) new_result
     = Inr (AList.update ''exemption_status''
              (PDict (write_exemption True False
                        (PStr ''Annual income $200,000 >= $200,000 for 2 years'') []))
              (sample_boundary 200000),
            new_result\<lparr>exemption_status := ''ACCREDITED''\<rparr>)"
    by simp
  from accredited_income_boundary
         [OF fin [of 199999] stable [of 199999] spouse [of 199999] sec [of 199999],
          where pf = "cpython 2026" and r = new_result and nfa = 0 and net_worth = 0]
       annual [of 199999] rest [of 199999]
  have second:
    "determine_exemption (cpython 2026) (sample_boundary 199999) new_result
     = Inr (AList.update ''exemption_status'' (PDict (write_exemption False True PNone []))
              (sample_boundary 199999),
            add_warning eligible_warning (new_result\<lparr>exemption_status := ''ELIGIBLE''\<rparr>))"
    by simp
  show ?thesis
    using first second unfolding written by (intro conjI)
qed

section \<open>Validation orchestrator: the verdict\<close>

text \<open>
  C2.  In every report \<^verbatim>\<open>validate\<close> returns, \<^verbatim>\<open>is_valid\<close> is false exactly when
  there is a red flag or more than three required fields are missing; and when the AML
  section of the record has a truthy PEP flag, the red flags are not empty and
  \<^verbatim>\<open>is_valid\<close> is false, whatever the financial figures are.
\<close>

theorem validity_verdict:
  assumes "validate pf data form_type = Inr (data', r)"
  shows "(\<not> is_valid r \<longleftrightarrow> red_flags r \<noteq> [] \<or> 3 < length (missing_required r))
       \<and> (\<forall>aml. section_value data ''aml'' = PDict aml \<and> py_truthy (dict_get aml ''is_pep'')
              \<longrightarrow> red_flags r \<noteq> [] \<and> \<not> is_valid r)"
proof -
  from assms obtain r5 where r: "r = verdict r5"
    unfolding validate_eq_Inr by blast
  have verdict: "\<not> is_valid r \<longleftrightarrow> red_flags r \<noteq> [] \<or> 3 < length (missing_required r)"
    unfolding r verdict_is_valid verdict_lists by auto
  have "red_flags r \<noteq> []"
    if "section_value data ''aml'' = PDict aml" and "py_truthy (dict_get aml ''is_pep'')" for aml
    using validate_red_flags [OF assms] that by (auto simp: aml_findings_red_flags)
  with verdict show ?thesis by blast
qed

theorem validity_verdict_witness:
  "validate (cpython 2026) sample_pep ''individual'' = Inr (sample_pep_stored, sample_pep_report)
   \<and> section_value sample_pep ''aml''
        = PDict [(''is_pep'', PBool True), (''pep_position'', PStr ''Minister'')]
   \<and> py_truthy (dict_get [(''is_pep'', PBool True), (''pep_position'', PStr ''Minister'')]
        ''is_pep'')
   \<and> red_flags sample_pep_report \<noteq> []
   \<and> \<not> is_valid sample_pep_report"
proof -
  let ?aml = "[(''is_pep'', PBool True), (''pep_position'', PStr ''Minister'')]"
  have run: "validate (cpython 2026) sample_pep ''individual''
               = Inr (sample_pep_stored, sample_pep_report)"
    by code_simp
  have aml: "section_value sample_pep ''aml'' = PDict ?aml"
    by code_simp
  have pep: "py_truthy (dict_get ?aml ''is_pep'')"
    by code_simp
  from validity_verdict [OF run] aml pep
  have "red_flags sample_pep_report \<noteq> [] \<and> \<not> is_valid sample_pep_report"
    by blast
  with run aml pep show ?thesis
    by blast
qed

text \<open>
  C3.  In every report \<^verbatim>\<open>validate\<close> returns, \<^verbatim>\<open>follow_up_needed\<close> is true exactly
  when there is a red flag, or more than three required fields are missing, or there is
  a suitability concern; the warnings play no part: without flags, concerns and more
  than three missing fields it is false.
\<close>

theorem follow_up_verdict:
  assumes "validate pf data form_type = Inr (data', r)"
  shows "(follow_up_needed r \<longleftrightarrow>
            red_flags r \<noteq> [] \<or> 3 < length (missing_required r) \<or> suitability_concerns r \<noteq> [])
       \<and> (red_flags r = [] \<and> length (missing_required r) \<le> 3 \<and> suitability_concerns r = []
            \<longrightarrow> \<not> follow_up_needed r)"
proof -
  from assms obtain r5 where r: "r = verdict r5"
    unfolding validate_eq_Inr by blast
  show ?thesis
    unfolding r verdict_follow_up verdict_lists by auto
qed

theorem follow_up_verdict_witness:
  "validate (cpython 2026) sample_trade ''trade'' = Inr (sample_trade_stored, sample_trade_report)
   \<and> red_flags sample_trade_report = []
   \<and> length (missing_required sample_trade_report) \<le> 3
   \<and> suitability_concerns sample_trade_report = []
   \<and> length (warnings sample_trade_report) = 3
   \<and> \<not> follow_up_needed sample_trade_report"
proof -
  have run: "validate (cpython 2026) sample_trade ''trade''
               = Inr (sample_trade_stored, sample_trade_report)"
    by code_simp
  have quiet: "red_flags sample_trade_report = []
      \<and> length (missing_required sample_trade_report) \<le> 3
      \<and> suitability_concerns sample_trade_report = []"
    by (simp add: sample_trade_report_def)
  have warned: "length (warnings sample_trade_report) = 3"
    by (simp add: sample_trade_report_def)
  from follow_up_verdict [OF run] quiet have "\<not> follow_up_needed sample_trade_report"
    by blast
  with run quiet warned show ?thesis
    by blast
qed

section \<open>Validation orchestrator: a second call\<close>

text \<open>
  C9.  When \<^verbatim>\<open>validate\<close> has returned on a record, a second call on the record as
  the first call left it (with the exemption section written back) returns too, with
  the same exemption tier and the same stored reason; it returns the same report and
  leaves the record as it is.
\<close>

theorem validate_idempotent:
  assumes "validate pf data form_type = Inr (data1, r1)"
  shows "\<exists>data2 r2.
           validate pf data1 form_type = Inr (data2, r2)
         \<and> exemption_status r2 = exemption_status r1
         \<and> stored_exemption data2 ''accreditation_reason''
             = stored_exemption data1 ''accreditation_reason''
         \<and> data2 = data1 \<and> r2 = r1"
proof -
  from assms obtain r2 r3 r4 r5 where
    de: "determine_exemption pf data (check_required_fields (PDict data) form_type new_result)
          = Inr (data1, r2)"
    and cs: "check_suitability pf data1 r2 = Inr r3"
    and ca: "check_aml_flags pf data1 r3 = Inr r4"
    and cc: "check_concentration pf data1 r4 = Inr r5"
    and r: "r1 = verdict r5"
    unfolding validate_eq_Inr by blast
  have "check_required_fields (PDict data1) form_type new_result
          = check_required_fields (PDict data) form_type new_result"
    using determine_exemption_other_keys [OF de] by (rule check_required_fields_frame)
  with determine_exemption_again [OF de]
  have "determine_exemption pf data1
          (check_required_fields (PDict data1) form_type new_result) = Inr (data1, r2)"
    by simp
  with cs ca cc r have "validate pf data1 form_type = Inr (data1, r1)"
    unfolding validate_eq_Inr by blast
  then show ?thesis by simp
qed

theorem validate_idempotent_witness:
  "validate (cpython 2026) sample_pep ''individual'' = Inr (sample_pep_stored, sample_pep_report)
   \<and> validate (cpython 2026) sample_pep_stored ''individual''
        = Inr (sample_pep_stored, sample_pep_report)
   \<and> stored_exemption sample_pep_stored ''accreditation_reason''
        = PStr ''Annual income $500,000 >= $200,000 for 2 years''"
proof -
  have run: "validate (cpython 2026) sample_pep ''individual''
               = Inr (sample_pep_stored, sample_pep_report)"
    by code_simp
  have reason: "stored_exemption sample_pep_stored ''accreditation_reason''
        = PStr ''Annual income $500,000 >= $200,000 for 2 years''"
    by code_simp
  from validate_idempotent [OF run]
  have "validate (cpython 2026) sample_pep_stored ''individual''
          = Inr (sample_pep_stored, sample_pep_report)"
    by blast
  with run reason show ?thesis
    by blast
qed

section \<open>Validation orchestrator: what it writes\<close>

text \<open>
  On the value tree: when \<^verbatim>\<open>validate\<close> returns, the tree it leaves is the tree it
  was given with the key \<^verbatim>\<open>exemption_status\<close> updated, and in that section only the
  three written keys differ.
\<close>

lemma validate_tree_frame:
  assumes "validate pf data form_type = Inr (data', r)"
  shows "\<exists>sec a e reason.
           old_exemption_section data = Some sec
         \<and> data' = AList.update ''exemption_status''
                     (PDict (write_exemption a e reason sec)) data
         \<and> (\<forall>k. k \<noteq> ''exemption_status'' \<longrightarrow> map_of data' k = map_of data k)
         \<and> (\<forall>k. k \<noteq> ''is_accredited'' \<and> k \<noteq> ''is_eligible'' \<and> k \<noteq> ''accreditation_reason''
                \<longrightarrow> map_of (write_exemption a e reason sec) k = map_of sec k)"
proof -
  from assms obtain r2 where
    de: "determine_exemption pf data (check_required_fields (PDict data) form_type new_result)
          = Inr (data', r2)"
    unfolding validate_eq_Inr by blast
  then obtain sec a e reason where
    sec: "old_exemption_section data = Some sec"
    and data': "data' = AList.update ''exemption_status''
                  (PDict (write_exemption a e reason sec)) data"
    unfolding determine_exemption_eq_Inr by blast
  have other: "\<forall>k. k \<noteq> ''exemption_status'' \<longrightarrow> map_of data' k = map_of data k"
    using determine_exemption_other_keys [OF de] by simp
  have inner: "\<forall>k. k \<noteq> ''is_accredited'' \<and> k \<noteq> ''is_eligible'' \<and> k \<noteq> ''accreditation_reason''
                \<longrightarrow> map_of (write_exemption a e reason sec) k = map_of sec k"
    by (simp add: write_exemption_other)
  show ?thesis
    apply (rule exI [of _ sec], rule exI [of _ a], rule exI [of _ e], rule exI [of _ reason])
    apply (intro conjI sec data' other inner)
    done
qed

lemma fold_max_ge: "(n::nat) \<le> fold max xs n"
  by (induction xs arbitrary: n) (auto intro: order_trans [OF max.cobounded2])

lemma fold_max_mem: "(x::nat) \<in> set xs \<Longrightarrow> x \<le> fold max xs n"
proof (induction xs arbitrary: n)
  case Nil
  then show ?case by simp
next
  case (Cons y ys)
  then show ?case
    using fold_max_ge [of "max y n" ys] by auto
qed

lemma fresh_unused: "map_of h (fresh h) = None"
proof -
  have "fresh h \<notin> fst ` set h"
  proof
    assume "fresh h \<in> fst ` set h"
    then have "fresh h \<in> set (map fst h)" by simp
    from fold_max_mem [OF this, of 0] show False
      by (simp add: fresh_def)
  qed
  then show ?thesis
    by (simp add: map_of_eq_None_iff)
qed

lemma snapshot_frame:
  assumes "\<And>b. b \<noteq> e \<Longrightarrow> b \<noteq> rref \<Longrightarrow> map_of h' b = map_of h b"
    and "\<not> occurs d h v e" and "\<not> occurs d h v rref"
  shows "snapshot d h' v = snapshot d h v"
  using assms(2,3)
proof (induction d arbitrary: v)
  case 0
  then show ?case by (cases v) simp_all
next
  case (Suc d)
  show ?case
  proof (cases v)
    case (HRef b)
    with Suc.prems have b: "b \<noteq> e" "b \<noteq> rref" by auto
    then have same: "map_of h' b = map_of h b" by (rule assms(1))
    show ?thesis
    proof (cases "map_of h b")
      case None
      with same HRef show ?thesis by simp
    next
      case (Some obj)
      show ?thesis
      proof (cases obj)
        case (HDict m)
        have "snapshot d h' (snd kv) = snapshot d h (snd kv)" if "kv \<in> set m" for kv
          using Suc.prems that HRef Some HDict b
          by (intro Suc.IH) (auto simp: list_ex_iff)
        with same HRef Some HDict show ?thesis by simp
      next
        case (HList xs)
        have "snapshot d h' x = snapshot d h x" if "x \<in> set xs" for x
          using Suc.prems that HRef Some HList b
          by (intro Suc.IH) (auto simp: list_ex_iff)
        with same HRef Some HList show ?thesis by simp
      qed
    qed
  qed simp_all
qed

lemma exemption_setitem_step:
  assumes "exemption_setitem key val rref h = Inr h'"
    and "top_value h rref ''exemption_status'' = Some (HRef e)"
    and "key \<noteq> ''exemption_status''"
  shows "top_value h' rref ''exemption_status'' = Some (HRef e)"
    and "\<And>b. b \<noteq> e \<Longrightarrow> map_of h' b = map_of h b"
    and "\<exists>sec. map_of h e = Some (HDict sec)
            \<and> map_of h' e = Some (HDict (AList.update key val sec))"
proof -
  from assms(2) obtain m where m: "map_of h rref = Some (HDict m)"
    and e: "map_of m ''exemption_status'' = Some (HRef e)"
    by (auto simp: top_value_def split: option.splits hobj.splits)
  with assms(1) obtain sec where sec: "map_of h e = Some (HDict sec)"
    and h': "h' = AList.update e (HDict (AList.update key val sec)) h"
    by (auto simp: exemption_setitem_def split: option.splits hobj.splits)
  show "\<And>b. b \<noteq> e \<Longrightarrow> map_of h' b = map_of h b"
    by (simp add: h' update_conv')
  show "\<exists>sec. map_of h e = Some (HDict sec)
            \<and> map_of h' e = Some (HDict (AList.update key val sec))"
    using sec by (simp add: h' update_conv')
  show "top_value h' rref ''exemption_status'' = Some (HRef e)"
  proof (cases "e = rref")
    case True
    with m sec have "sec = m" by simp
    with True e assms(3) show ?thesis
      by (simp add: top_value_def h' update_conv')
  next
    case False
    with m e show ?thesis
      by (simp add: top_value_def h' update_conv')
  qed
qed

lemma three_setitems:
  assumes s1: "exemption_setitem ''is_accredited'' (HBool a) rref h1 = Inr h2"
    and s2: "exemption_setitem ''is_eligible'' (HBool el) rref h2 = Inr h3"
    and s3: "exemption_setitem ''accreditation_reason'' (reason_hval reason) rref h3 = Inr h'"
    and top: "top_value h1 rref ''exemption_status'' = Some (HRef e)"
    and old: "map_of h1 e = Some (HDict old)"
  shows "map_of h' e = Some (HDict (write_exemption_heap a el reason old))"
    and "\<And>b. b \<noteq> e \<Longrightarrow> map_of h' b = map_of h1 b"
proof -
  note step1 = exemption_setitem_step [OF s1 top]
  have top2: "top_value h2 rref ''exemption_status'' = Some (HRef e)"
    by (rule step1(1)) simp
  note step2 = exemption_setitem_step [OF s2 top2]
  have top3: "top_value h3 rref ''exemption_status'' = Some (HRef e)"
    by (rule step2(1)) simp
  note step3 = exemption_setitem_step [OF s3 top3]
  have e2: "map_of h2 e = Some (HDict (AList.update ''is_accredited'' (HBool a) old))"
    using step1(3) old by auto
  have e3: "map_of h3 e = Some (HDict (AList.update ''is_eligible'' (HBool el)
              (AList.update ''is_accredited'' (HBool a) old)))"
    using step2(3) e2 by auto
  show "map_of h' e = Some (HDict (write_exemption_heap a el reason old))"
    using step3(3) e3 by (auto simp: write_exemption_heap_def)
  show "map_of h' b = map_of h1 b" if "b \<noteq> e" for b
    using step1(2) [of b] step2(2) [of b] step3(2) [of b] that by simp
qed

lemma store_exemption_heap_frame:
  assumes "store_exemption_heap a el reason rref h = Inr h'"
  shows "\<exists>m e old.
           map_of h rref = Some (HDict m)
         \<and> (case map_of m ''exemption_status'' of
               None \<Rightarrow> e = fresh h \<and> old = []
             | Some v \<Rightarrow> v = HRef e \<and> map_of h e = Some (HDict old))
         \<and> (\<forall>b. b \<noteq> e \<and> b \<noteq> rref \<longrightarrow> map_of h' b = map_of h b)
         \<and> (e \<noteq> rref \<longrightarrow>
               map_of h' rref = Some (HDict (AList.update ''exemption_status'' (HRef e) m))
             \<and> map_of h' e = Some (HDict (write_exemption_heap a el reason old)))"
proof -
  from assms obtain h1 h2 h3 where
    en: "ensure_exemption rref h = Inr h1"
    and s1: "exemption_setitem ''is_accredited'' (HBool a) rref h1 = Inr h2"
    and s2: "exemption_setitem ''is_eligible'' (HBool el) rref h2 = Inr h3"
    and s3: "exemption_setitem ''accreditation_reason'' (reason_hval reason) rref h3 = Inr h'"
    unfolding store_exemption_heap_def bind_err_eq_Inr by blast
  from en obtain m where m: "map_of h rref = Some (HDict m)"
    by (auto simp: ensure_exemption_def split: option.splits hobj.splits)
  show ?thesis
  proof (cases "map_of m ''exemption_status''")
    case None
    let ?e = "fresh h"
    have ne: "?e \<noteq> rref"
      using fresh_unused [of h] m by auto
    from en m None have h1: "h1 = AList.update rref
          (HDict (AList.update ''exemption_status'' (HRef ?e) m))
          (AList.update ?e (HDict []) h)"
      by (simp add: ensure_exemption_def)
    have top: "top_value h1 rref ''exemption_status'' = Some (HRef ?e)"
      by (simp add: top_value_def h1 update_conv')
    have old: "map_of h1 ?e = Some (HDict [])"
      using ne by (simp add: h1 update_conv')
    note three = three_setitems [OF s1 s2 s3 top old]
    have "\<forall>b. b \<noteq> ?e \<and> b \<noteq> rref \<longrightarrow> map_of h' b = map_of h b"
      using three(2) by (simp add: h1 update_conv')
    moreover have "map_of h' rref
        = Some (HDict (AList.update ''exemption_status'' (HRef ?e) m))"
      using three(2) [of rref] ne by (simp add: h1 update_conv')
    ultimately show ?thesis
      using m None three(1) by (intro exI [of _ m] exI [of _ ?e] exI [of _ "[]"]) simp
  next
    case (Some v)
    with en m have h1: "h1 = h"
      by (simp add: ensure_exemption_def)
    from s1 m Some obtain e old where v: "v = HRef e" and old: "map_of h e = Some (HDict old)"
      unfolding h1 by (auto simp: exemption_setitem_def split: option.splits hobj.splits hval.splits)
    have top: "top_value h1 rref ''exemption_status'' = Some (HRef e)"
      using m Some v by (simp add: top_value_def h1)
    note three = three_setitems [OF s1 s2 s3 top old [folded h1]]
    have same: "AList.update ''exemption_status'' (HRef e) m = m"
      using Some v by (intro update_triv) simp
    have "\<forall>b. b \<noteq> e \<and> b \<noteq> rref \<longrightarrow> map_of h' b = map_of h b"
      using three(2) by (simp add: h1)
    moreover have "map_of h' rref = Some (HDict (AList.update ''exemption_status'' (HRef e) m))"
      if "e \<noteq> rref"
      using three(2) [of rref] that m by (simp add: h1 same)
    ultimately show ?thesis
      using m Some v old three(1) by (intro exI [of _ m] exI [of _ e] exI [of _ old]) simp
  qed
qed

lemma write_exemption_heap_other:
  assumes "k \<noteq> ''is_accredited''" "k \<noteq> ''is_eligible''" "k \<noteq> ''accreditation_reason''"
  shows "map_of (write_exemption_heap a el reason sec) k = map_of sec k"
  using assms by (simp add: write_exemption_heap_def update_conv')

lemma validate_heap_store:
  assumes "validate_heap pf d h rref form_type = Inr (h', r)"
  shows "\<exists>a el reason. store_exemption_heap a el reason rref h = Inr h'"
  using assms
  by (auto simp: validate_heap_def determine_exemption_heap_def bind_err_eq_Inr Let_def
        split: prod.splits)

text \<open>
  C10, as amended.  On the store: when \<^verbatim>\<open>validate\<close> returns, the objects it has
  changed are at most the dictionary under \<^verbatim>\<open>exemption_status\<close> (a new one when the
  key was absent) and the record itself; unless that dictionary is the record, the
  record has the same keys with the same values as before, with \<^verbatim>\<open>exemption_status\<close>
  added at the end when it was absent, and the dictionary has \<^verbatim>\<open>is_accredited\<close>,
  \<^verbatim>\<open>is_eligible\<close> and \<^verbatim>\<open>accreditation_reason\<close> written and its other keys as
  before; and every other top-level value in which neither that dictionary nor the
  record is met (every other top-level value, when the record is a tree) reads exactly
  as before.
\<close>

theorem validate_heap_frame:
  assumes "validate_heap pf d h rref form_type = Inr (h', r)"
  shows "\<exists>m e old a el reason.
           map_of h rref = Some (HDict m)
         \<and> (case map_of m ''exemption_status'' of
               None \<Rightarrow> e = fresh h \<and> old = []
             | Some v \<Rightarrow> v = HRef e \<and> map_of h e = Some (HDict old))
         \<and> (\<forall>b. b \<noteq> e \<and> b \<noteq> rref \<longrightarrow> map_of h' b = map_of h b)
         \<and> (e \<noteq> rref \<longrightarrow>
               map_of h' rref = Some (HDict (AList.update ''exemption_status'' (HRef e) m))
             \<and> map_of h' e = Some (HDict (write_exemption_heap a el reason old))
             \<and> (\<forall>k. k \<noteq> ''is_accredited'' \<and> k \<noteq> ''is_eligible''
                       \<and> k \<noteq> ''accreditation_reason''
                    \<longrightarrow> map_of (write_exemption_heap a el reason old) k = map_of old k)
             \<and> (\<forall>k v. k \<noteq> ''exemption_status'' \<and> map_of m k = Some v
                    \<longrightarrow> top_value h' rref k = Some v
                        \<and> (\<not> occurs d h v e \<and> \<not> occurs d h v rref
                             \<longrightarrow> snapshot d h' v = snapshot d h v)))"
proof -
  from validate_heap_store [OF assms] obtain a el reason where
    "store_exemption_heap a el reason rref h = Inr h'"
    by blast
  from store_exemption_heap_frame [OF this] obtain m e old where
    m: "map_of h rref = Some (HDict m)"
    and e: "case map_of m ''exemption_status'' of
               None \<Rightarrow> e = fresh h \<and> old = []
             | Some v \<Rightarrow> v = HRef e \<and> map_of h e = Some (HDict old)"
    and others: "\<forall>b. b \<noteq> e \<and> b \<noteq> rref \<longrightarrow> map_of h' b = map_of h b"
    and written: "e \<noteq> rref \<longrightarrow>
               map_of h' rref = Some (HDict (AList.update ''exemption_status'' (HRef e) m))
             \<and> map_of h' e = Some (HDict (write_exemption_heap a el reason old))"
    by blast
  have keys: "\<forall>k. k \<noteq> ''is_accredited'' \<and> k \<noteq> ''is_eligible'' \<and> k \<noteq> ''accreditation_reason''
                \<longrightarrow> map_of (write_exemption_heap a el reason old) k = map_of old k"
    by (simp add: write_exemption_heap_other)
  have tops: "top_value h' rref k = Some v
      \<and> (\<not> occurs d h v e \<and> \<not> occurs d h v rref \<longrightarrow> snapshot d h' v = snapshot d h v)"
    if "e \<noteq> rref" and "k \<noteq> ''exemption_status''" and "map_of m k = Some v" for k v
  proof
    from written that(1)
    have "map_of h' rref = Some (HDict (AList.update ''exemption_status'' (HRef e) m))"
      by simp
    then show "top_value h' rref k = Some v"
      using that(2,3) by (simp add: top_value_def update_conv')
    show "\<not> occurs d h v e \<and> \<not> occurs d h v rref \<longrightarrow> snapshot d h' v = snapshot d h v"
      using others by (auto intro: snapshot_frame)
  qed
  have inner: "e \<noteq> rref \<longrightarrow>
               map_of h' rref = Some (HDict (AList.update ''exemption_status'' (HRef e) m))
             \<and> map_of h' e = Some (HDict (write_exemption_heap a el reason old))
             \<and> (\<forall>k. k \<noteq> ''is_accredited'' \<and> k \<noteq> ''is_eligible''
                       \<and> k \<noteq> ''accreditation_reason''
                    \<longrightarrow> map_of (write_exemption_heap a el reason old) k = map_of old k)
             \<and> (\<forall>k v. k \<noteq> ''exemption_status'' \<and> map_of m k = Some v
                    \<longrightarrow> top_value h' rref k = Some v
                        \<and> (\<not> occurs d h v e \<and> \<not> occurs d h v rref
                             \<longrightarrow> snapshot d h' v = snapshot d h v))"
  proof (rule impI)
    assume ne: "e \<noteq> rref"
    from written ne
    have 1: "map_of h' rref = Some (HDict (AList.update ''exemption_status'' (HRef e) m))"
      and 2: "map_of h' e = Some (HDict (write_exemption_heap a el reason old))"
      by simp_all
    from tops [OF ne]
    have 3: "\<forall>k v. k \<noteq> ''exemption_status'' \<and> map_of m k = Some v
                    \<longrightarrow> top_value h' rref k = Some v
                        \<and> (\<not> occurs d h v e \<and> \<not> occurs d h v rref
                             \<longrightarrow> snapshot d h' v = snapshot d h v)"
      by blast
    from 1 2 keys 3
    show "map_of h' rref = Some (HDict (AList.update ''exemption_status'' (HRef e) m))
             \<and> map_of h' e = Some (HDict (write_exemption_heap a el reason old))
             \<and> (\<forall>k. k \<noteq> ''is_accredited'' \<and> k \<noteq> ''is_eligible''
                       \<and> k \<noteq> ''accreditation_reason''
                    \<longrightarrow> map_of (write_exemption_heap a el reason old) k = map_of old k)
             \<and> (\<forall>k v. k \<noteq> ''exemption_status'' \<and> map_of m k = Some v
                    \<longrightarrow> top_value h' rref k = Some v
                        \<and> (\<not> occurs d h v e \<and> \<not> occurs d h v rref
                             \<longrightarrow> snapshot d h' v = snapshot d h v))"
      by (intro conjI)
  qed
  show ?thesis
    apply (rule exI [of _ m], rule exI [of _ e], rule exI [of _ old])
    apply (rule exI [of _ a], rule exI [of _ el], rule exI [of _ reason])
    apply (intro conjI m e others inner)
    done
qed

theorem validate_heap_frame_witness:
  "validate_heap (cpython 2026) 3 tree_heap 0 ''unknown''
     = Inr (tree_heap_after, accredited_report)
   \<and> top_value tree_heap 0 ''exemption_status'' = Some (HRef 2)
   \<and> top_value tree_heap 0 ''financials'' = Some (HRef 1)
   \<and> \<not> occurs 3 tree_heap (HRef 1) 2
   \<and> \<not> occurs 3 tree_heap (HRef 1) 0
   \<and> top_value tree_heap_after 0 ''financials'' = Some (HRef 1)
   \<and> snapshot 3 tree_heap_after (HRef 1) = snapshot 3 tree_heap (HRef 1)"
proof -
  let ?m = "[(''financials'', HRef 1), (''exemption_status'', HRef 2)]"
  have run: "validate_heap (cpython 2026) 3 tree_heap 0 ''unknown''
               = Inr (tree_heap_after, accredited_report)"
    by code_simp
  have rec0: "map_of tree_heap 0 = Some (HDict ?m)"
    by code_simp
  have status: "top_value tree_heap 0 ''exemption_status'' = Some (HRef 2)"
    by code_simp
  have fin: "top_value tree_heap 0 ''financials'' = Some (HRef 1)"
    by code_simp
  have apart: "\<not> occurs 3 tree_heap (HRef 1) 2" "\<not> occurs 3 tree_heap (HRef 1) 0"
    by code_simp+
  from validate_heap_frame [OF run]
  have "top_value tree_heap_after 0 ''financials'' = Some (HRef 1)
      \<and> snapshot 3 tree_heap_after (HRef 1) = snapshot 3 tree_heap (HRef 1)"
  proof (elim exE conjE)
    fix m e old a el reason
    assume m: "map_of tree_heap 0 = Some (HDict m)"
      and e: "case map_of m ''exemption_status'' of
                None \<Rightarrow> e = fresh tree_heap \<and> old = []
              | Some v \<Rightarrow> v = HRef e \<and> map_of tree_heap e = Some (HDict old)"
      and inner: "e \<noteq> 0 \<longrightarrow>
               map_of tree_heap_after 0
                 = Some (HDict (AList.update ''exemption_status'' (HRef e) m))
             \<and> map_of tree_heap_after e = Some (HDict (write_exemption_heap a el reason old))
             \<and> (\<forall>k. k \<noteq> ''is_accredited'' \<and> k \<noteq> ''is_eligible''
                       \<and> k \<noteq> ''accreditation_reason''
                    \<longrightarrow> map_of (write_exemption_heap a el reason old) k = map_of old k)
             \<and> (\<forall>k v. k \<noteq> ''exemption_status'' \<and> map_of m k = Some v
                    \<longrightarrow> top_value tree_heap_after 0 k = Some v
                        \<and> (\<not> occurs 3 tree_heap v e \<and> \<not> occurs 3 tree_heap v 0
                             \<longrightarrow> snapshot 3 tree_heap_after v = snapshot 3 tree_heap v))"
    from m rec0 have m_eq: "m = ?m"
      by simp
    with e have e_eq: "e = 2"
      by simp
    from inner e_eq
    have every: "\<forall>k v. k \<noteq> ''exemption_status'' \<and> map_of m k = Some v
              \<longrightarrow> top_value tree_heap_after 0 k = Some v
                  \<and> (\<not> occurs 3 tree_heap v 2 \<and> \<not> occurs 3 tree_heap v 0
                       \<longrightarrow> snapshot 3 tree_heap_after v = snapshot 3 tree_heap v)"
      by simp
    have look: "''financials'' \<noteq> ''exemption_status'' \<and> map_of m ''financials'' = Some (HRef 1)"
      unfolding m_eq by simp
    from every [rule_format, OF look] apart
    show ?thesis
      by (intro conjI) simp_all
  qed
  with run status fin apart show ?thesis
    by (intro conjI) simp_all
qed
text \<open>
  The claim as it is stated fails on a record that holds one dictionary under both
  \<^verbatim>\<open>financials\<close> and \<^verbatim>\<open>exemption_status\<close>: \<^verbatim>\<open>validate\<close> returns, and the
  financial section has three more keys than before.
\<close>

theorem validate_frame_counterexample:
  "validate_heap (cpython 2026) 3 aliased_heap 0 ''unknown''
     = Inr (aliased_heap_after, accredited_report)
   \<and> top_value aliased_heap 0 ''financials'' = Some (HRef 1)
   \<and> top_value aliased_heap_after 0 ''financials'' = Some (HRef 1)
   \<and> snapshot 3 aliased_heap (HRef 1)
       = PDict [(''annual_income'', PInt 250000), (''income_stable_2_years'', PBool True)]
   \<and> snapshot 3 aliased_heap_after (HRef 1)
       = PDict [(''annual_income'', PInt 250000), (''income_stable_2_years'', PBool True),
                (''is_accredited'', PBool True), (''is_eligible'', PBool False),
                (''accreditation_reason'',
                 PStr ''Annual income $250,000 >= $200,000 for 2 years'')]"
  by (intro conjI; code_simp)


section \<open>Concentration checker: the guard and the thresholds\<close>

text \<open>The concrete platform converts a positive int to a double that is not zero.\<close>

lemma binary_exponent_le: "binary_exponent n d \<le> bitlen n - bitlen d"
  by (simp add: binary_exponent_def Let_def split: prod.splits)

lemma round_fraction_pos: "0 < d \<Longrightarrow> d \<le> n \<Longrightarrow> 0 < round_fraction (n, d)"
  using pos_imp_zdiv_pos_iff [of d n] by (auto simp: round_fraction_def Let_def)

lemma scaled_int_pos:
  assumes "0 < i" and "p \<le> bitlen i - 1"
  shows "0 < snd (scaled i 1 p) \<and> snd (scaled i 1 p) \<le> fst (scaled i 1 p)"
proof (cases "p \<le> 0")
  case True
  have "(1::int) * 1 \<le> i * 2 ^ nat (- p)"
    using assms(1) by (intro mult_mono) auto
  then have "1 \<le> i * 2 ^ nat (- p)" by simp
  with True show ?thesis by (simp add: scaled_def)
next
  case False
  have "(2::int) ^ nat p \<le> 2 ^ nat (bitlen i - 1)"
    using assms(2) by (intro power_increasing) auto
  also have "\<dots> \<le> i"
    using bitlen_bounds [OF assms(1)] by simp
  finally show ?thesis using False by (simp add: scaled_def)
qed

lemma pow2_pos: "0 < pow2 p"
  by (simp add: pow2_def)

lemma ieee_round_of_int_pos:
  assumes "0 < i"
  shows "ieee_round (of_int i) \<noteq> Finite 0"
proof -
  let ?e = "binary_exponent i 1"
  let ?p = "max (?e - 52) (- 1074)"
  let ?m = "round_fraction (scaled i 1 ?p)"
  have one: "bitlen 1 = 1"
    by (simp add: bitlen_def floorlog_def)
  have "?e \<le> bitlen i - 1"
    using binary_exponent_le [of i 1] by (simp add: one)
  moreover have "bitlen i \<noteq> 0"
    using assms by (simp add: bitlen_eq_zero_iff)
  then have "0 \<le> bitlen i - 1"
    using bitlen_nonneg [of i] by simp
  ultimately have "?p \<le> bitlen i - 1" by simp
  from scaled_int_pos [OF assms this] have "0 < ?m"
    using round_fraction_pos [of "snd (scaled i 1 ?p)" "fst (scaled i 1 ?p)"] by simp
  then have "(of_int ?m :: rat) * pow2 ?p \<noteq> 0"
    using pow2_pos [of ?p] by simp
  moreover have "quotient_of \<bar>of_int i :: rat\<bar> = (i, 1)"
    using assms by (simp flip: of_int_abs)
  ultimately show ?thesis
    using assms by (simp add: ieee_round_def Let_def)
qed

lemma converts_positive_cpython: "converts_positive (cpython year)"
  by (simp add: converts_positive_def cpython_def ieee_round_of_int_pos)

text \<open>
  \<^verbatim>\<open>ZeroDivisionError\<close> is not among the errors of the division behind the guard,
  nor of anything else \<^verbatim>\<open>_check_concentration\<close> evaluates.
\<close>

lemma float_div_no_zde:
  "float_gt_int g 0 \<Longrightarrow> float_div pf f g \<noteq> Inl ZeroDivisionError"
  by (cases g; cases f) (auto simp: signed_inf_def)

lemma to_float_no_zde: "to_float pf i \<noteq> Inl ZeroDivisionError"
  by (simp add: to_float_def split: pyfloat.splits)

lemma to_float_positive:
  assumes "converts_positive pf" and "0 < i" and "to_float pf i = Inr g"
  shows "float_div pf f g \<noteq> Inl ZeroDivisionError"
proof (cases "round_double pf (of_int i)")
  case (Finite q)
  with assms(3) have g: "g = Finite q"
    by (simp add: to_float_def)
  from assms(1,2) Finite have "q \<noteq> 0"
    by (auto simp: converts_positive_def)
  then show ?thesis
    by (cases f) (simp_all add: g)
qed (use assms(3) in \<open>simp_all add: to_float_def\<close>)

lemma py_truediv_no_zde:
  assumes "py_gt b 0 = Inr True" and "converts_positive pf"
  shows "py_truediv pf a b \<noteq> Inl ZeroDivisionError"
proof (cases "as_num b")
  case None
  with assms(1) show ?thesis
    by (simp add: py_gt_def)
next
  case (Some nb)
  show ?thesis
  proof (cases nb)
    case (NInt y)
    with Some assms have pos: "0 < y" by (simp add: py_gt_def)
    show ?thesis
    proof (cases "as_num a")
      case None
      then show ?thesis by (simp add: py_truediv_def)
    next
      case a: (Some na)
      show ?thesis
      proof (cases na)
        case (NInt x)
        with a Some \<open>nb = NInt y\<close> pos show ?thesis
          by (simp add: py_truediv_def split: pyfloat.splits)
      next
        case (NFloat f)
        show ?thesis
        proof (cases "to_float pf y")
          case (Inl e)
          with to_float_no_zde [of pf y] have "e \<noteq> ZeroDivisionError" by auto
          with Inl a NFloat Some \<open>nb = NInt y\<close> show ?thesis
            by (simp add: py_truediv_def)
        next
          case (Inr g)
          with a NFloat Some \<open>nb = NInt y\<close> to_float_positive [OF assms(2) pos Inr, of f]
          show ?thesis
            by (simp add: py_truediv_def)
        qed
      qed
    qed
  next
    case (NFloat g)
    with Some assms have pos: "float_gt_int g 0" by (simp add: py_gt_def)
    show ?thesis
    proof (cases "as_num a")
      case None
      then show ?thesis by (simp add: py_truediv_def)
    next
      case a: (Some na)
      show ?thesis
      proof (cases na)
        case (NInt x)
        show ?thesis
        proof (cases "to_float pf x")
          case (Inl e)
          with to_float_no_zde [of pf x] have "e \<noteq> ZeroDivisionError" by auto
          with Inl a NInt Some \<open>nb = NFloat g\<close> show ?thesis
            by (simp add: py_truediv_def)
        next
          case (Inr f)
          with a NInt Some \<open>nb = NFloat g\<close> float_div_no_zde [OF pos, of pf f]
          show ?thesis
            by (simp add: py_truediv_def)
        qed
      next
        case f: (NFloat f)
        with a Some \<open>nb = NFloat g\<close> float_div_no_zde [OF pos, of pf f]
        show ?thesis
          by (simp add: py_truediv_def)
      qed
    qed
  qed
qed

lemma py_gt_no_zde: "py_gt v k \<noteq> Inl ZeroDivisionError"
  by (simp add: py_gt_def split: option.splits pynum.splits)

lemma concentration_pct_no_zde:
  assumes "converts_positive pf"
  shows "concentration_pct pf nfa amount \<noteq> Inl ZeroDivisionError"
proof (cases "py_gt nfa 0")
  case (Inl e)
  with py_gt_no_zde [of nfa 0] show ?thesis
    by (auto simp: concentration_pct_def)
next
  case (Inr c1)
  show ?thesis
  proof (cases c1)
    case False
    with Inr show ?thesis by (simp add: concentration_pct_def)
  next
    case True
    with Inr have pos: "py_gt nfa 0 = Inr True" by simp
    show ?thesis
    proof (cases "py_gt amount 0")
      case (Inl e)
      with py_gt_no_zde [of amount 0] pos show ?thesis
        by (auto simp: concentration_pct_def)
    next
      case (Inr c2)
      then show ?thesis
        using pos py_truediv_no_zde [OF pos assms, of amount]
        by (cases "py_truediv pf amount nfa") (auto simp: concentration_pct_def)
    qed
  qed
qed

lemma check_concentration_no_zde:
  assumes "converts_positive pf"
  shows "check_concentration pf data r \<noteq> Inl ZeroDivisionError"
proof (cases "as_dict (section_value data ''financials'')")
  case (Inl e)
  then have "e = AttributeError"
    by (simp add: as_dict_def split: pyval.splits)
  with Inl show ?thesis by (simp add: check_concentration_def)
next
  case fin: (Inr financials)
  show ?thesis
  proof (cases "as_dict (section_value data ''investment_details'')")
    case (Inl e)
    then have "e = AttributeError"
      by (simp add: as_dict_def split: pyval.splits)
    with Inl fin show ?thesis by (simp add: check_concentration_def)
  next
    case inv: (Inr investment)
    let ?nfa = "or_zero (dict_get financials ''net_financial_assets'')"
    let ?amount = "or_zero (dict_get investment ''amount'')"
    from concentration_pct_no_zde [OF assms, of ?nfa ?amount] fin inv show ?thesis
      by (cases "concentration_pct pf ?nfa ?amount")
         (auto simp: check_concentration_def split: option.splits)
  qed
qed

lemma float_gt_int_mono: "float_gt_int f 25 \<Longrightarrow> float_gt_int f 10"
  by (cases f) auto

lemma concentration_findings_eq:
  "concentration_findings pf pct r =
     r\<lparr>warnings := warnings r
          @ (if float_gt_int pct 10 then [concentration_warning (format_float_1f pf pct)]
             else []),
       suitability_concerns := suitability_concerns r
          @ (if float_gt_int pct 25 then [concentration_concern (format_float_1f pf pct)]
             else [])\<rparr>"
  by (simp add: concentration_findings_def Let_def add_warning_def add_concern_def)

lemma concentration_findings_limit: "concentration_findings pf (Finite 10) r = r"
  by (simp add: concentration_findings_def Let_def)

lemma concentration_pct_eq_Inr:
  "concentration_pct pf nfa amount = Inr p \<longleftrightarrow>
     (\<exists>c1. py_gt nfa 0 = Inr c1
        \<and> (if \<not> c1 then p = None
           else \<exists>c2. py_gt amount 0 = Inr c2
                  \<and> (if \<not> c2 then p = None
                     else \<exists>q. py_truediv pf amount nfa = Inr q
                            \<and> p = Some (float_mul pf q (Finite 100)))))"
  by (auto simp: concentration_pct_def bind_err_eq_Inr)

lemma check_concentration_eq_Inr:
  "check_concentration pf data r = Inr r' \<longleftrightarrow>
     (\<exists>financials investment p.
        section_value data ''financials'' = PDict financials
      \<and> section_value data ''investment_details'' = PDict investment
      \<and> concentration_pct pf (or_zero (dict_get financials ''net_financial_assets''))
           (or_zero (dict_get investment ''amount'')) = Inr p
      \<and> r' = (case p of None \<Rightarrow> r | Some pct \<Rightarrow> concentration_findings pf pct r))"
  by (auto simp: check_concentration_def bind_err_eq_Inr as_dict_eq_Inr Let_def
        split: option.splits)

lemma or_zero_falsy: "\<not> py_truthy v \<Longrightarrow> or_zero v = PInt 0"
  by (simp add: or_zero_def)

lemma py_gt_number: "as_num v \<noteq> None \<Longrightarrow> \<exists>c. py_gt v k = Inr c"
  by (cases "as_num v") (auto simp: py_gt_def split: pynum.splits)

text \<open>
  C5.  For every record and every report so far: \<^verbatim>\<open>_check_concentration\<close> never
  raises \<^verbatim>\<open>ZeroDivisionError\<close> (on a platform that converts no positive int to the
  double zero, as the concrete one does).  Whenever it returns, both sections are
  dictionaries, and with the two amounts read as the code reads them (an absent, null
  or otherwise falsy amount is 0): the percentage is computed only when the net
  financial assets and the investment amount are both strictly positive, and otherwise
  the report is returned as it was; when it is computed, the division has a result,
  the warning is appended exactly when the percentage is strictly greater than 10 and
  the concern exactly when it is strictly greater than 25, to a list of its own, so that
  the concern never comes without the warning; a percentage of exactly 10.0 leaves the
  report as it was.  When the net financial assets are zero or absent, or the
  investment amount is zero or absent and the net financial assets are a number, the
  check returns the report unchanged.
\<close>

theorem concentration_guard:
  "(converts_positive pf \<longrightarrow> check_concentration pf data r \<noteq> Inl ZeroDivisionError)
   \<and> (\<forall>r'. check_concentration pf data r = Inr r' \<longrightarrow>
         (\<exists>financials investment.
            section_value data ''financials'' = PDict financials
          \<and> section_value data ''investment_details'' = PDict investment
          \<and> (let nfa = or_zero (dict_get financials ''net_financial_assets'');
                  amount = or_zero (dict_get investment ''amount'')
              in if py_gt nfa 0 = Inr True \<and> py_gt amount 0 = Inr True
                 then \<exists>q. py_truediv pf amount nfa = Inr q
                        \<and> (let pct = float_mul pf q (Finite 100)
                           in r' = r\<lparr>warnings := warnings r
                                       @ (if float_gt_int pct 10
                                          then [concentration_warning (format_float_1f pf pct)]
                                          else []),
                                     suitability_concerns := suitability_concerns r
                                       @ (if float_gt_int pct 25
                                          then [concentration_concern (format_float_1f pf pct)]
                                          else [])\<rparr>
                            \<and> (float_gt_int pct 25 \<longrightarrow> float_gt_int pct 10)
                            \<and> (pct = Finite 10 \<longrightarrow> r' = r))
                 else r' = r)))
   \<and> (\<forall>financials investment.
          section_value data ''financials'' = PDict financials
        \<and> section_value data ''investment_details'' = PDict investment
        \<and> (\<not> py_truthy (dict_get financials ''net_financial_assets'')
           \<or> \<not> py_truthy (dict_get investment ''amount'')
              \<and> as_num (dict_get financials ''net_financial_assets'') \<noteq> None)
        \<longrightarrow> check_concentration pf data r = Inr r)"
proof (intro conjI allI impI)
  assume "converts_positive pf"
  then show "check_concentration pf data r \<noteq> Inl ZeroDivisionError"
    by (rule check_concentration_no_zde)
next
  fix r'
  assume "check_concentration pf data r = Inr r'"
  then obtain financials investment p where
    fin: "section_value data ''financials'' = PDict financials"
    and inv: "section_value data ''investment_details'' = PDict investment"
    and pct: "concentration_pct pf (or_zero (dict_get financials ''net_financial_assets''))
                (or_zero (dict_get investment ''amount'')) = Inr p"
    and r': "r' = (case p of None \<Rightarrow> r | Some pct \<Rightarrow> concentration_findings pf pct r)"
    unfolding check_concentration_eq_Inr by blast
  let ?nfa = "or_zero (dict_get financials ''net_financial_assets'')"
  let ?amount = "or_zero (dict_get investment ''amount'')"
  have "if py_gt ?nfa 0 = Inr True \<and> py_gt ?amount 0 = Inr True
        then \<exists>q. py_truediv pf ?amount ?nfa = Inr q
               \<and> (let pct = float_mul pf q (Finite 100)
                  in r' = r\<lparr>warnings := warnings r
                              @ (if float_gt_int pct 10
                                 then [concentration_warning (format_float_1f pf pct)]
                                 else []),
                            suitability_concerns := suitability_concerns r
                              @ (if float_gt_int pct 25
                                 then [concentration_concern (format_float_1f pf pct)]
                                 else [])\<rparr>
                   \<and> (float_gt_int pct 25 \<longrightarrow> float_gt_int pct 10)
                   \<and> (pct = Finite 10 \<longrightarrow> r' = r))
        else r' = r"
  proof (cases "py_gt ?nfa 0 = Inr True \<and> py_gt ?amount 0 = Inr True")
    case True
    with pct obtain q where q: "py_truediv pf ?amount ?nfa = Inr q"
      and p: "p = Some (float_mul pf q (Finite 100))"
      unfolding concentration_pct_eq_Inr by auto
    have "r' = concentration_findings pf (float_mul pf q (Finite 100)) r"
      by (simp add: r' p)
    with True q show ?thesis
      using concentration_findings_eq [of pf "float_mul pf q (Finite 100)" r]
        concentration_findings_limit [of pf r]
        float_gt_int_mono [of "float_mul pf q (Finite 100)"]
      unfolding Let_def by auto
  next
    case False
    with pct have "p = None"
      unfolding concentration_pct_eq_Inr by (auto split: if_splits)
    then have "r' = r" by (simp add: r')
    then show ?thesis by (subst if_not_P [OF False])
  qed
  with fin inv
  show "\<exists>financials investment.
            section_value data ''financials'' = PDict financials
          \<and> section_value data ''investment_details'' = PDict investment
          \<and> (let nfa = or_zero (dict_get financials ''net_financial_assets'');
                  amount = or_zero (dict_get investment ''amount'')
              in if py_gt nfa 0 = Inr True \<and> py_gt amount 0 = Inr True
                 then \<exists>q. py_truediv pf amount nfa = Inr q
                        \<and> (let pct = float_mul pf q (Finite 100)
                           in r' = r\<lparr>warnings := warnings r
                                       @ (if float_gt_int pct 10
                                          then [concentration_warning (format_float_1f pf pct)]
                                          else []),
                                     suitability_concerns := suitability_concerns r
                                       @ (if float_gt_int pct 25
                                          then [concentration_concern (format_float_1f pf pct)]
                                          else [])\<rparr>
                            \<and> (float_gt_int pct 25 \<longrightarrow> float_gt_int pct 10)
                            \<and> (pct = Finite 10 \<longrightarrow> r' = r))
                 else r' = r)"
    unfolding Let_def by (intro exI [of _ financials] exI [of _ investment] conjI)
next
  fix financials investment
  assume a: "section_value data ''financials'' = PDict financials
        \<and> section_value data ''investment_details'' = PDict investment
        \<and> (\<not> py_truthy (dict_get financials ''net_financial_assets'')
           \<or> \<not> py_truthy (dict_get investment ''amount'')
              \<and> as_num (dict_get financials ''net_financial_assets'') \<noteq> None)"
  let ?nfa = "or_zero (dict_get financials ''net_financial_assets'')"
  let ?amount = "or_zero (dict_get investment ''amount'')"
  have "concentration_pct pf ?nfa ?amount = Inr None"
  proof (cases "py_truthy (dict_get financials ''net_financial_assets'')")
    case False
    then show ?thesis
      by (simp add: or_zero_falsy concentration_pct_def py_gt_def)
  next
    case True
    with a have amount: "?amount = PInt 0"
      and num: "as_num (dict_get financials ''net_financial_assets'') \<noteq> None"
      by (simp_all add: or_zero_falsy)
    from True have "?nfa = dict_get financials ''net_financial_assets''"
      by (simp add: or_zero_def)
    with num have "\<exists>c. py_gt ?nfa 0 = Inr c"
      by (simp add: py_gt_number)
    then obtain c where "py_gt ?nfa 0 = Inr c" ..
    then show ?thesis
      by (simp add: concentration_pct_def amount py_gt_def)
  qed
  with a show "check_concentration pf data r = Inr r"
    by (simp add: check_concentration_def as_dict_def)
qed

theorem concentration_guard_witness:
  "converts_positive (cpython 2026)
   \<and> check_concentration (cpython 2026) sample_concentrated new_result = Inr concentrated_report
   \<and> check_concentration (cpython 2026) sample_concentrated new_result \<noteq> Inl ZeroDivisionError
   \<and> py_gt (PInt 100000) 0 = Inr True
   \<and> py_gt (PInt 30000) 0 = Inr True
   \<and> warnings concentrated_report =
       [''Investment represents 30.0% of NFA (>10%) - document suitability justification'']
   \<and> suitability_concerns concentrated_report =
       [''High concentration: 30.0% of NFA in single investment'']
   \<and> check_concentration (cpython 2026) sample_at_limit new_result = Inr new_result
   \<and> check_concentration (cpython 2026) sample_nfa_record new_result = Inr new_result"
proof -
  note guard = concentration_guard [of "cpython 2026" _ new_result]
  have pos: "converts_positive (cpython 2026)"
    by (rule converts_positive_cpython)
  have run: "check_concentration (cpython 2026) sample_concentrated new_result
               = Inr concentrated_report"
    by code_simp
  from guard [of sample_concentrated] pos
  have no_zde: "check_concentration (cpython 2026) sample_concentrated new_result
                  \<noteq> Inl ZeroDivisionError"
    by (elim conjE) simp
  have nfa: "py_gt (PInt 100000) 0 = Inr True" by code_simp
  have amount: "py_gt (PInt 30000) 0 = Inr True" by code_simp
  have w: "warnings concentrated_report =
       [''Investment represents 30.0% of NFA (>10%) - document suitability justification'']"
    by code_simp
  have c: "suitability_concerns concentrated_report =
       [''High concentration: 30.0% of NFA in single investment'']"
    by code_simp
  have limit: "check_concentration (cpython 2026) sample_at_limit new_result = Inr new_result"
    by code_simp
  have fin: "section_value sample_nfa_record ''financials'' =
      PDict [(''annual_income'', PInt 100000), (''net_financial_assets'', PInt 1500000)]"
    by code_simp
  have inv: "section_value sample_nfa_record ''investment_details'' = PDict []"
    by code_simp
  have falsy: "\<not> py_truthy (dict_get [] ''amount'')" by code_simp
  have num: "as_num (dict_get [(''annual_income'', PInt 100000),
                 (''net_financial_assets'', PInt 1500000)] ''net_financial_assets'') \<noteq> None"
    by code_simp
  from guard [of sample_nfa_record]
  have "\<forall>financials investment.
          section_value sample_nfa_record ''financials'' = PDict financials
        \<and> section_value sample_nfa_record ''investment_details'' = PDict investment
        \<and> (\<not> py_truthy (dict_get financials ''net_financial_assets'')
           \<or> \<not> py_truthy (dict_get investment ''amount'')
              \<and> as_num (dict_get financials ''net_financial_assets'') \<noteq> None)
        \<longrightarrow> check_concentration (cpython 2026) sample_nfa_record new_result = Inr new_result"
    by (elim conjE)
  from this [rule_format, of _ "[]"] fin inv falsy num
  have absent: "check_concentration (cpython 2026) sample_nfa_record new_result = Inr new_result"
    by simp
  from pos run no_zde nfa amount w c limit absent show ?thesis
    by (intro conjI)
qed


section \<open>Validation orchestrator: the records it returns on\<close>




















lemma section_field_update:
  "name \<noteq> ''exemption_status'' \<Longrightarrow>
     section_field (AList.update ''exemption_status'' v data) name key
       = section_field data name key"
  by (simp add: section_field_def section_value_update)





end
